theory Spec2Isabelle
  imports Complex_Main "HOL-Library.Char_ord" "HOL-Library.List_Lexorder"
begin

section \<open>Controller/bookingController.js: the booking request handlers\<close>

text \<open>
  The handlers \<open>bookCar\<close>, \<open>updateBooking\<close>, \<open>extendBooking\<close>, \<open>cancelBooking\<close> and
  \<open>Return_car\<close> are embedded as functions from an environment, a store and a request to
  the new store and the response sent.

  What the handlers call but do not define enters as follows.
  \<^item> The document database (two collections, \<open>Booking\<close> and \<open>Car\<close>) is a pair of lists in
    the store. A filter is data (\<open>query\<close>) and is evaluated by \<open>matches\<close> on the named
    fields of a document, as the database does: a comparison on a field a document does
    not have matches nothing, values of different types do not compare, strings compare
    lexicographically. Filters reach the database as the handler writes them. Reads and
    writes do not fail, except that a number path does not store \<open>NaN\<close>.
  \<^item> The JavaScript engine's \<open>Date\<close> enters through the environment: the clock, the
    parser of a date string, \<open>toISOString\<close> and the round trip through
    \<open>toLocaleString\<close>. A \<open>Date\<close> is its time value in milliseconds, or Invalid Date.
  \<^item> The invoice renderer and the notifier are logs in the store.
  \<^item> A number is a double or an infinity, and \<open>NaN\<close> apart. The price is the product of
    line 91 rounded to the nearest double, as the engine computes it. The count of days is
    computed on the integers: time values are integers of at most 8.64e15 in size, their
    difference is exact, and below 2^27 days the rounding of the quotient cannot move it
    across an integer.
\<close>

subsection \<open>Dates and comparisons\<close>

text \<open>A \<open>Date\<close>: \<open>None\<close> is Invalid Date, whose time value is \<open>NaN\<close>.\<close>

type_synonym date = "int option"

text \<open>\<open>a < b\<close>, \<open>a <= b\<close> and \<open>a >= b\<close> on two dates: false as soon as one side is \<open>NaN\<close>.\<close>

definition date_lt :: "date \<Rightarrow> date \<Rightarrow> bool" where
  "date_lt a b = (case a of None \<Rightarrow> False | Some x \<Rightarrow> (case b of None \<Rightarrow> False | Some y \<Rightarrow> x < y))"

definition date_le :: "date \<Rightarrow> date \<Rightarrow> bool" where
  "date_le a b = (case a of None \<Rightarrow> False | Some x \<Rightarrow> (case b of None \<Rightarrow> False | Some y \<Rightarrow> x \<le> y))"

definition date_ge :: "date \<Rightarrow> date \<Rightarrow> bool" where
  "date_ge a b = date_le b a"

text \<open>A field of a JSON body: absent, or a string. \<open>!x\<close> holds of an absent field and of
  the empty string.\<close>

definition truthy :: "string option \<Rightarrow> bool" where
  "truthy v = (case v of None \<Rightarrow> False | Some s \<Rightarrow> s \<noteq> [])"

definition str :: "string option \<Rightarrow> string" where
  "str v = (case v of None \<Rightarrow> [] | Some s \<Rightarrow> s)"

subsection \<open>Numbers\<close>

text \<open>A number other than \<open>NaN\<close>: a finite double, given by its value, or an infinity.
  \<open>NaN\<close> is \<open>None\<close> of \<open>number option\<close>. The two zeros are not told apart.\<close>

datatype number = Finite real | PInfinity | NInfinity

definition number_le :: "number \<Rightarrow> number \<Rightarrow> bool" where
  "number_le a b =
     (case a of
        NInfinity \<Rightarrow> True
      | PInfinity \<Rightarrow> b = PInfinity
      | Finite x \<Rightarrow> (case b of Finite y \<Rightarrow> x \<le> y | PInfinity \<Rightarrow> True | NInfinity \<Rightarrow> False))"

text \<open>The rounding of a real to binary64, to nearest and ties to even. The exponent of
  \<open>x\<close> is found by halving or doubling, between \<open>-1022\<close> (below it the doubles are
  subnormal and keep the spacing \<open>2^-1074\<close>) and \<open>1023\<close>; a double has 53 significant bits,
  so the spacing at exponent \<open>e\<close> is \<open>2^(e - 52)\<close>; a result of \<open>2^1024\<close> or more is an
  infinity.\<close>

definition pow2 :: "int \<Rightarrow> real" where
  "pow2 k = (if 0 \<le> k then 2 ^ nat k else 1 / 2 ^ nat (- k))"

fun exp_up :: "nat \<Rightarrow> int \<Rightarrow> real \<Rightarrow> int" where
  "exp_up n e x = (if n = 0 \<or> x < 2 then e else exp_up (n - 1) (e + 1) (x / 2))"

fun exp_down :: "nat \<Rightarrow> int \<Rightarrow> real \<Rightarrow> int" where
  "exp_down n e x = (if n = 0 \<or> 1 \<le> x then e else exp_down (n - 1) (e - 1) (x * 2))"

declare exp_up.simps [simp del] exp_down.simps [simp del]

definition binary_exponent :: "real \<Rightarrow> int" where
  "binary_exponent x = (if 1 \<le> \<bar>x\<bar> then exp_up 1023 0 \<bar>x\<bar> else exp_down 1022 0 \<bar>x\<bar>)"

definition round_half_even :: "real \<Rightarrow> int" where
  "round_half_even y =
     (let f = \<lfloor>y\<rfloor> in
      if y - of_int f < 1 / 2 then f
      else if 1 / 2 < y - of_int f then f + 1
      else if even f then f else f + 1)"

definition round_double :: "real \<Rightarrow> number" where
  "round_double x =
     (if x = 0 then Finite 0
      else
        (let q = pow2 (binary_exponent x - 52);
             r = of_int (round_half_even (x / q)) * q
         in if 2 ^ 1024 \<le> \<bar>r\<bar> then (if 0 < x then PInfinity else NInfinity) else Finite r))"

text \<open>\<open>daysRented * rentRate\<close>: the count of days is an integer and a double; the product of
  two doubles is their exact product, rounded.\<close>

definition js_times :: "int \<Rightarrow> number \<Rightarrow> number option" where
  "js_times d r =
     (case r of
        Finite x \<Rightarrow> Some (round_double (of_int d * x))
      | PInfinity \<Rightarrow> if d = 0 then None else if 0 < d then Some PInfinity else Some NInfinity
      | NInfinity \<Rightarrow> if d = 0 then None else if 0 < d then Some NInfinity else Some PInfinity)"

text \<open>\<open>hour >= 12\<close>, \<open>hour % 12\<close> (the remainder has the sign of \<open>hour\<close> and is exact) and
  \<open>v || 12\<close> (\<open>0\<close> and \<open>NaN\<close> are falsy).\<close>

definition js_ge12 :: "number option \<Rightarrow> bool" where
  "js_ge12 h =
     (case h of
        None \<Rightarrow> False
      | Some v \<Rightarrow> (case v of Finite x \<Rightarrow> 12 \<le> x | PInfinity \<Rightarrow> True | NInfinity \<Rightarrow> False))"

definition js_rem12 :: "number option \<Rightarrow> number option" where
  "js_rem12 h =
     (case h of
        None \<Rightarrow> None
      | Some v \<Rightarrow>
          (case v of
             Finite x \<Rightarrow>
               Some (Finite (x - 12 * of_int (if 0 \<le> x then \<lfloor>x / 12\<rfloor> else \<lceil>x / 12\<rceil>)))
           | PInfinity \<Rightarrow> None
           | NInfinity \<Rightarrow> None))"

definition js_or12 :: "number option \<Rightarrow> number option" where
  "js_or12 v =
     (case v of
        None \<Rightarrow> Some (Finite 12)
      | Some w \<Rightarrow>
          (case w of
             Finite x \<Rightarrow> if x = 0 then Some (Finite 12) else Some (Finite x)
           | PInfinity \<Rightarrow> Some PInfinity
           | NInfinity \<Rightarrow> Some NInfinity))"

subsection \<open>Documents and filters\<close>

datatype val = Str string | DateV date | Num number | Null

datatype cond = Eq val | Ne val | Lte val | Gte val

text \<open>A filter document is a list of entries, all of which must hold: a field with its
  operators, or \<open>$or\<close> over alternatives, each a list of fields with their operators.\<close>

datatype filter = Field string "cond list" | Or "(string \<times> cond list) list list"

type_synonym query = "filter list"

type_synonym doc = "string \<Rightarrow> val option"

fun val_lte :: "val \<Rightarrow> val \<Rightarrow> bool" where
  "val_lte (Str a) (Str b) = (a \<le> b)"
| "val_lte (DateV (Some a)) (DateV (Some b)) = (a \<le> b)"
| "val_lte (Num a) (Num b) = number_le a b"
| "val_lte _ _ = False"

fun holds :: "val option \<Rightarrow> cond \<Rightarrow> bool" where
  "holds v (Eq w) = (if w = Null then v = None \<or> v = Some Null else v = Some w)"
| "holds v (Ne w) = (if w = Null then \<not> (v = None \<or> v = Some Null) else v \<noteq> Some w)"
| "holds v (Lte w) = (case v of None \<Rightarrow> False | Some x \<Rightarrow> val_lte x w)"
| "holds v (Gte w) = (case v of None \<Rightarrow> False | Some x \<Rightarrow> val_lte w x)"

definition holds_field :: "doc \<Rightarrow> string \<times> cond list \<Rightarrow> bool" where
  "holds_field d fc = list_all (holds (d (fst fc))) (snd fc)"

fun matches_filter :: "doc \<Rightarrow> filter \<Rightarrow> bool" where
  "matches_filter d (Field f cs) = holds_field d (f, cs)"
| "matches_filter d (Or alts) = list_ex (list_all (holds_field d)) alts"

definition matches :: "doc \<Rightarrow> query \<Rightarrow> bool" where
  "matches d q = list_all (matches_filter d) q"

subsection \<open>The collections\<close>

text \<open>Modelled from the spec: the schema of \<open>Model/bookingModel.js\<close>, which is not among
  the sources. A \<open>Booking\<close> has an id, the references \<open>carId\<close>, \<open>userId\<close> and \<open>showroomId\<close>,
  the four strings \<open>rentalStartDate\<close>, \<open>rentalStartTime\<close>, \<open>rentalEndDate\<close> and
  \<open>rentalEndTime\<close>, and the computed amount \<open>totalPrice\<close> (section 3); these are the fields
  \<open>bookCar\<close> gives \<open>new Booking\<close> in lines 108 to 117.\<close>

record booking =
  booking_id :: string
  carId :: string
  userId :: string
  showroomId :: string
  rentalStartDate :: string
  rentalStartTime :: string
  rentalEndDate :: string
  rentalEndTime :: string
  totalPrice :: number

text \<open>Modelled from the spec: the schema of \<open>Model/Car.js\<close>, which is not among the
  sources. Of a \<open>Car\<close> (section 3) the handlers read or write the id, \<open>availability\<close>,
  \<open>rentRate\<close> and the owning user, \<open>car.userId\<close>.\<close>

record car =
  car_id :: string
  availability :: string
  rentRate :: number
  car_userId :: string

text \<open>The named fields of a stored \<open>Booking\<close>, as a filter sees them.\<close>

definition booking_doc :: "booking \<Rightarrow> doc" where
  "booking_doc b f =
     (if f = ''_id'' then Some (Str (booking_id b))
      else if f = ''carId'' then Some (Str (carId b))
      else if f = ''userId'' then Some (Str (userId b))
      else if f = ''showroomId'' then Some (Str (showroomId b))
      else if f = ''rentalStartDate'' then Some (Str (rentalStartDate b))
      else if f = ''rentalStartTime'' then Some (Str (rentalStartTime b))
      else if f = ''rentalEndDate'' then Some (Str (rentalEndDate b))
      else if f = ''rentalEndTime'' then Some (Str (rentalEndTime b))
      else if f = ''totalPrice'' then Some (Num (totalPrice b))
      else None)"

text \<open>The snapshot \<open>createInvoice\<close> is called with (lines 122 to 131, 481 to 490).\<close>

record invoiceData =
  inv_id :: string
  inv_carId :: string
  inv_userId :: string
  inv_rentalStartDate :: string
  inv_rentalEndDate :: string
  inv_rentalStartTime :: string
  inv_rentalEndTime :: string
  inv_totalPrice :: number

record store =
  bookings :: "booking list"
  cars :: "car list"
  invoices :: "invoiceData list"
  emitted :: "(string \<times> string) list"

text \<open>\<open>Booking.findOne(filter)\<close>, \<open>Booking.findById\<close>, \<open>Car.findById\<close>.\<close>

definition findOne :: "query \<Rightarrow> booking list \<Rightarrow> booking option" where
  "findOne q bs = find (\<lambda>b. matches (booking_doc b) q) bs"

definition Booking_findById :: "string \<Rightarrow> booking list \<Rightarrow> booking option" where
  "Booking_findById i bs = find (\<lambda>b. booking_id b = i) bs"

definition Car_findById :: "string \<Rightarrow> car list \<Rightarrow> car option" where
  "Car_findById i cs = find (\<lambda>c. car_id c = i) cs"

text \<open>\<open>car.save()\<close> and \<open>booking.save()\<close> of a loaded document, \<open>newBooking.save()\<close>,
  \<open>Booking.findByIdAndDelete\<close>.\<close>

definition Car_save :: "car \<Rightarrow> car list \<Rightarrow> car list" where
  "Car_save c cs = map (\<lambda>x. if car_id x = car_id c then c else x) cs"

definition Booking_save :: "booking \<Rightarrow> booking list \<Rightarrow> booking list" where
  "Booking_save b bs = map (\<lambda>x. if booking_id x = booking_id b then b else x) bs"

definition Booking_insert :: "booking \<Rightarrow> booking list \<Rightarrow> booking list" where
  "Booking_insert b bs = bs @ [b]"

fun Booking_findByIdAndDelete :: "string \<Rightarrow> booking list \<Rightarrow> booking list" where
  "Booking_findByIdAndDelete i [] = []"
| "Booking_findByIdAndDelete i (b # bs) =
     (if booking_id b = i then bs else b # Booking_findByIdAndDelete i bs)"

subsection \<open>bookCar: the overlap filter\<close>

text \<open>The \<open>$or\<close> of lines 44 to 55, and the filter of lines 42 to 56.\<close>

definition bookCar_or :: "string \<Rightarrow> string \<Rightarrow> filter" where
  "bookCar_or rsd red =
     Or [[(''rentalStartDate'', [Lte (Str red)]), (''rentalEndDate'', [Gte (Str rsd)])],
         [(''rentalStartDate'', [Gte (Str rsd), Lte (Str red)])],
         [(''rentalEndDate'', [Gte (Str rsd), Lte (Str red)])]]"

definition bookCar_overlap :: "string \<Rightarrow> string \<Rightarrow> string \<Rightarrow> query" where
  "bookCar_overlap cid rsd red = [Field ''carId'' [Eq (Str cid)], bookCar_or rsd red]"

subsection \<open>The environment and the request\<close>

text \<open>What a handler reads from the engine: \<open>new Date()\<close>, \<open>new Date(string)\<close>,
  \<open>toISOString\<close> of a valid date, the round trip
  \<open>new Date(d.toLocaleString("en-US", {timeZone: "Asia/Karachi"}))\<close> of a valid date,
  \<open>Number(string)\<close>, the string of a number (\<open>toString()\<close>, and in a template), and the
  \<open>_id\<close> that \<open>new Booking\<close> generates.\<close>

record env =
  now :: int
  parseDate :: "string \<Rightarrow> date"
  toISOString :: "int \<Rightarrow> string"
  toKarachi :: "int \<Rightarrow> date"
  toNumber :: "string \<Rightarrow> number option"
  numToString :: "number option \<Rightarrow> string"
  newId :: string

text \<open>\<open>req.body\<close>, \<open>req.params\<close>, \<open>req.user\<close>, \<open>req.protocol\<close>, \<open>req.get("host")\<close>.\<close>

record request =
  body_carId :: "string option"
  body_showroomId :: "string option"
  body_rentalStartDate :: "string option"
  body_rentalStartTime :: "string option"
  body_rentalEndDate :: "string option"
  body_rentalEndTime :: "string option"
  params_bookingId :: string
  params_BookingId :: string
  req_user :: string
  req_protocol :: string
  req_host :: string

datatype exn = RangeError | TypeError | ValidationError | DuplicateKey

datatype payload =
    Message string
  | MessageDetails string exn
  | MessageBooking string booking
  | MessageBookingInvoice string booking string
  | MessageError string exn

type_synonym response = "nat \<times> payload"

text \<open>Invalid Date prints as \<open>"Invalid Date"\<close>, which parses to Invalid Date again.\<close>

definition localTime :: "env \<Rightarrow> date \<Rightarrow> date" where
  "localTime E d = (case d of None \<Rightarrow> None | Some t \<Rightarrow> toKarachi E t)"

subsection \<open>Strings\<close>

text \<open>\<open>s.split(c)\<close>: never empty. \<open>\d\<close> of a regular expression.\<close>

fun split :: "char \<Rightarrow> string \<Rightarrow> string list" where
  "split c [] = [[]]"
| "split c (x # xs) =
     (if x = c then [] # split c xs
      else (case split c xs of [] \<Rightarrow> [[x]] | r # rs \<Rightarrow> (x # r) # rs))"

definition split0 :: "char \<Rightarrow> string \<Rightarrow> string" where
  "split0 c s = (case split c s of [] \<Rightarrow> [] | r # rs \<Rightarrow> r)"

definition is_digit :: "char \<Rightarrow> bool" where
  "is_digit c = (CHR ''0'' \<le> c \<and> c \<le> CHR ''9'')"

definition padStart :: "nat \<Rightarrow> char \<Rightarrow> string \<Rightarrow> string" where
  "padStart n c s = replicate (n - length s) c @ s"

text \<open>Lines 97 to 102. \<open>minute\<close> is \<open>undefined\<close> when the time has no colon, and
  \<open>minute.toString()\<close> throws.\<close>

definition formatTimeTo12Hour :: "env \<Rightarrow> string \<Rightarrow> exn + string" where
  "formatTimeTo12Hour E time =
     (case map (toNumber E) (split CHR '':'' time) of
        hour # minute # rest \<Rightarrow>
          (let period = (if js_ge12 hour then ''PM'' else ''AM'');
               formattedHour = js_or12 (js_rem12 hour)
           in Inr (numToString E formattedHour @ '':''
                   @ padStart 2 CHR ''0'' (numToString E minute) @ '' '' @ period))
      | _ \<Rightarrow> Inl TypeError)"

text \<open>\<open>/^\d{2}:\d{2}$/.test(s)\<close>.\<close>

definition is_HH_MM :: "string \<Rightarrow> bool" where
  "is_HH_MM s =
     (case s of
        [a, b, c, d, e] \<Rightarrow> is_digit a \<and> is_digit b \<and> c = CHR '':'' \<and> is_digit d \<and> is_digit e
      | _ \<Rightarrow> False)"

text \<open>A calendar date in the ISO form \<open>YYYY-MM-DD\<close>, as \<open>toISOString\<close> prints it.\<close>

definition is_iso_date :: "string \<Rightarrow> bool" where
  "is_iso_date d =
     (length d = 10 \<and> list_all is_digit (take 4 d) \<and> d ! 4 = CHR ''-''
      \<and> list_all is_digit (take 2 (drop 5 d)) \<and> d ! 7 = CHR ''-''
      \<and> list_all is_digit (drop 8 d))"

subsection \<open>Rental duration and price\<close>

text \<open>Lines 88 to 90 (and 378 to 380, 465 to 468), on two valid dates.\<close>

definition rentalDuration :: "int \<Rightarrow> int \<Rightarrow> real" where
  "rentalDuration e s = real_of_int (e - s) / (1000 * 60 * 60 * 24) + 1"

definition daysRented :: "int \<Rightarrow> int \<Rightarrow> int" where
  "daysRented e s = max 0 \<lceil>rentalDuration e s\<rceil>"

text \<open>The same on dates: \<open>NaN\<close> as soon as one of them is invalid.\<close>

definition daysRented_date :: "date \<Rightarrow> date \<Rightarrow> int option" where
  "daysRented_date e s =
     (case e of None \<Rightarrow> None
      | Some x \<Rightarrow> (case s of None \<Rightarrow> None | Some y \<Rightarrow> Some (daysRented x y)))"

definition invoiceUrl :: "request \<Rightarrow> string \<Rightarrow> string" where
  "invoiceUrl req i =
     req_protocol req @ ''://'' @ req_host req @ ''/api/bookcar/invoices/invoice_'' @ i @ ''.pdf''"

text \<open>Modelled from the spec: \<open>createInvoice\<close> of \<open>Controller/invoiceController.js\<close>, which
  is not among the sources. It takes a booking snapshot and gives a file path (section 6);
  no handler uses the path, and the model records the call.\<close>

definition createInvoice :: "invoiceData \<Rightarrow> store \<Rightarrow> store" where
  "createInvoice d S = S\<lparr>invoices := invoices S @ [d]\<rparr>"

subsection \<open>bookCar\<close>

text \<open>The \<open>catch\<close> of lines 146 to 159.\<close>

fun bookCar_catch :: "exn \<Rightarrow> response" where
  "bookCar_catch ValidationError = (400, MessageDetails ''Invalid input data.'' ValidationError)"
| "bookCar_catch DuplicateKey = (409, Message ''Duplicate booking detected.'')"
| "bookCar_catch e = (500, Message ''Server error. Please try again later.'')"

text \<open>Lines 87 to 145, after the checks. \<open>toISOString\<close> throws on an invalid date; the
  duration and the price computed before it are then not used. Modelled from the spec:
  \<open>totalPrice\<close> is a number of the schema that is not among the sources, and
  \<open>newBooking.save()\<close> rejects \<open>NaN\<close> for it with a validation error.\<close>

definition bookCar_create ::
  "env \<Rightarrow> store \<Rightarrow> request \<Rightarrow> car \<Rightarrow> date \<Rightarrow> date \<Rightarrow> exn + store \<times> response" where
  "bookCar_create E S req c rentalStartDateis rentalEndDateis =
     (case rentalStartDateis of None \<Rightarrow> Inl RangeError
      | Some s \<Rightarrow>
     (case rentalEndDateis of None \<Rightarrow> Inl RangeError
      | Some e \<Rightarrow>
     (let formattedRentalStartDate = split0 CHR ''T'' (toISOString E s);
          formattedRentalEndDate = split0 CHR ''T'' (toISOString E e)
      in
     (case formatTimeTo12Hour E (str (body_rentalStartTime req)) of Inl x \<Rightarrow> Inl x
      | Inr formattedRentalStartTime \<Rightarrow>
     (case formatTimeTo12Hour E (str (body_rentalEndTime req)) of Inl x \<Rightarrow> Inl x
      | Inr formattedRentalEndTime \<Rightarrow>
     (case js_times (daysRented e s) (rentRate c) of None \<Rightarrow> Inl ValidationError
      | Some price \<Rightarrow>
     (let newBooking =
            \<lparr>booking_id = newId E,
             carId = str (body_carId req),
             userId = req_user req,
             showroomId = str (body_showroomId req),
             rentalStartDate = formattedRentalStartDate,
             rentalStartTime = formattedRentalStartTime,
             rentalEndDate = formattedRentalEndDate,
             rentalEndTime = formattedRentalEndTime,
             totalPrice = price\<rparr>;
          S1 = S\<lparr>bookings := Booking_insert newBooking (bookings S)\<rparr>;
          S2 = createInvoice
            \<lparr>inv_id = booking_id newBooking,
             inv_carId = str (body_carId req),
             inv_userId = req_user req,
             inv_rentalStartDate = formattedRentalStartDate,
             inv_rentalEndDate = formattedRentalEndDate,
             inv_rentalStartTime = formattedRentalStartTime,
             inv_rentalEndTime = formattedRentalEndTime,
             inv_totalPrice = price\<rparr> S1;
          S3 = S2\<lparr>cars := Car_save (c\<lparr>availability := ''Rented Out''\<rparr>) (cars S2)\<rparr>
      in Inr (S3, 201,
           MessageBookingInvoice ''Car booked successfully'' newBooking
             (invoiceUrl req (booking_id newBooking))))))))))"

definition bookCar :: "env \<Rightarrow> store \<Rightarrow> request \<Rightarrow> store \<times> response" where
  "bookCar E S req =
     (if \<not> truthy (body_carId req) \<or> \<not> truthy (body_showroomId req)
         \<or> \<not> truthy (body_rentalStartDate req) \<or> \<not> truthy (body_rentalStartTime req)
         \<or> \<not> truthy (body_rentalEndDate req) \<or> \<not> truthy (body_rentalEndTime req)
      then (S, 400, Message ''All fields are required.'')
      else
     (case Car_findById (str (body_carId req)) (cars S) of
        None \<Rightarrow> (S, 404, Message ''Car not found.'')
      | Some c \<Rightarrow>
     (if availability c \<noteq> ''Available''
      then (S, 400, Message ''Car is not available for booking.'')
      else
     (case findOne (bookCar_overlap (str (body_carId req)) (str (body_rentalStartDate req))
                      (str (body_rentalEndDate req))) (bookings S) of
        Some overlappingBooking \<Rightarrow>
          (S, 400, Message ''The car is already booked for the selected dates.'')
      | None \<Rightarrow>
     (let rentalStartDateis =
            parseDate E (str (body_rentalStartDate req) @ ''T'' @ str (body_rentalStartTime req)
                         @ '':00+05:00'');
          rentalEndDateis =
            parseDate E (str (body_rentalEndDate req) @ ''T'' @ str (body_rentalEndTime req)
                         @ '':00+05:00'')
      in
      if date_lt rentalStartDateis (Some (now E))
      then (S, 400, Message ''Rental start date must be in the present or future.'')
      else if date_lt rentalEndDateis rentalStartDateis
      then (S, 400, Message ''End date must be after the start date.'')
      else (case bookCar_create E S req c rentalStartDateis rentalEndDateis of
              Inl x \<Rightarrow> (S, bookCar_catch x)
            | Inr r \<Rightarrow> r))))))"

subsection \<open>updateBooking\<close>

text \<open>\<open>populate("carId")\<close> replaces the reference by the car, or by \<open>null\<close> when there is
  none; in a filter the populated car stands for its \<open>_id\<close>.\<close>

definition populate :: "booking \<Rightarrow> store \<Rightarrow> car option" where
  "populate b S = Car_findById (carId b) (cars S)"

definition populated_id :: "car option \<Rightarrow> val" where
  "populated_id p = (case p of None \<Rightarrow> Null | Some c \<Rightarrow> Str (car_id c))"

text \<open>The filter of lines 355 to 364.\<close>

definition updateBooking_overlap :: "val \<Rightarrow> string \<Rightarrow> date \<Rightarrow> date \<Rightarrow> query" where
  "updateBooking_overlap cid bookingId updatedLocalRentalEndDateTime updatedLocalRentalStartDateTime =
     [Field ''carId'' [Eq cid],
      Field ''_id'' [Ne (Str bookingId)],
      Or [[(''rentalStart'', [Lte (DateV updatedLocalRentalEndDateTime)]),
           (''rentalEnd'', [Gte (DateV updatedLocalRentalStartDateTime)])]]]"

text \<open>Lines 324 to 327.\<close>

definition override :: "string option \<Rightarrow> string \<Rightarrow> string" where
  "override new old = (if truthy new then str new else old)"

definition updateBooking_fields :: "request \<Rightarrow> booking \<Rightarrow> booking" where
  "updateBooking_fields req b =
     b\<lparr>rentalStartDate := override (body_rentalStartDate req) (rentalStartDate b),
       rentalEndDate := override (body_rentalEndDate req) (rentalEndDate b),
       rentalStartTime := override (body_rentalStartTime req) (rentalStartTime b),
       rentalEndTime := override (body_rentalEndTime req) (rentalEndTime b)\<rparr>"

text \<open>Lines 378 to 391. The price is \<open>NaN\<close> when a date is invalid. Modelled from the spec:
  \<open>totalPrice\<close> is a number of the schema that is not among the sources, and
  \<open>booking.save()\<close> rejects \<open>NaN\<close> for it with a validation error; the \<open>catch\<close> of lines 392
  to 395 answers.\<close>

definition updateBooking_save ::
  "store \<Rightarrow> booking \<Rightarrow> car \<Rightarrow> date \<Rightarrow> date \<Rightarrow> store \<times> response" where
  "updateBooking_save S b c updatedLocalRentalEndDateTime updatedLocalRentalStartDateTime =
     (case daysRented_date updatedLocalRentalEndDateTime updatedLocalRentalStartDateTime of
        None \<Rightarrow> (S, 500, MessageError ''Error updating booking'' ValidationError)
      | Some days \<Rightarrow>
     (case js_times days (rentRate c) of
        None \<Rightarrow> (S, 500, MessageError ''Error updating booking'' ValidationError)
      | Some price \<Rightarrow>
          (let b' = b\<lparr>totalPrice := price\<rparr>
           in (S\<lparr>bookings := Booking_save b' (bookings S)\<rparr>,
               200, MessageBooking ''Booking updated successfully'' b'))))"

definition updateBooking :: "env \<Rightarrow> store \<Rightarrow> request \<Rightarrow> store \<times> response" where
  "updateBooking E S req =
     (case Booking_findById (params_bookingId req) (bookings S) of
        None \<Rightarrow> (S, 404, Message ''Booking not found'')
      | Some b \<Rightarrow>
     (let localCurrentTime = localTime E (Some (now E));
          rentalStartDateTime = parseDate E (rentalStartDate b @ ''T'' @ rentalStartTime b);
          localRentalStartDateTime = localTime E rentalStartDateTime
      in
      if date_ge localCurrentTime localRentalStartDateTime
      then (S, 400, Message ''You can only update the booking before the rental start time.'')
      else
     (let previousRentalStartDateTime = localRentalStartDateTime;
          b1 = updateBooking_fields req b;
          updatedLocalRentalStartDateTime =
            localTime E (parseDate E (rentalStartDate b1 @ ''T'' @ rentalStartTime b1));
          updatedLocalRentalEndDateTime =
            localTime E (parseDate E (rentalEndDate b1 @ ''T'' @ rentalEndTime b1))
      in
      if date_le updatedLocalRentalEndDateTime updatedLocalRentalStartDateTime
      then (S, 400, Message ''Rental end time must be after the rental start time.'')
      else if date_le updatedLocalRentalStartDateTime previousRentalStartDateTime
      then (S, 400,
            Message ''New rental start time must be after the previous rental start time.'')
      else
     (case findOne (updateBooking_overlap (populated_id (populate b S)) (params_bookingId req)
                      updatedLocalRentalEndDateTime updatedLocalRentalStartDateTime)
             (bookings S) of
        Some overlappingBooking \<Rightarrow>
          (S, 400, Message ''The car is already booked for the selected dates.'')
      | None \<Rightarrow>
     (case populate b S of
        None \<Rightarrow> (S, 404, Message ''Car not found'')
      | Some c \<Rightarrow>
          updateBooking_save S b1 c updatedLocalRentalEndDateTime
            updatedLocalRentalStartDateTime)))))"

subsection \<open>extendBooking\<close>

text \<open>The filter of lines 449 to 458.\<close>

definition extendBooking_overlap :: "val \<Rightarrow> string \<Rightarrow> string \<Rightarrow> string \<Rightarrow> query" where
  "extendBooking_overlap cid bookingId rsd red =
     [Field ''carId'' [Eq cid],
      Field ''_id'' [Ne (Str bookingId)],
      Or [[(''rentalStartDate'', [Lte (Str red)]), (''rentalEndDate'', [Gte (Str rsd)])]]]"

text \<open>Lines 465 to 500. \<open>booking.carId.rentRate\<close> throws when the populated car is
  \<open>null\<close>.\<close>

definition extendBooking_save ::
  "store \<Rightarrow> request \<Rightarrow> booking \<Rightarrow> car option \<Rightarrow> date \<Rightarrow> date \<Rightarrow> store \<times> response" where
  "extendBooking_save S req b p updatedRentalEndDateTime rentalStartDateTime =
     (case p of
        None \<Rightarrow> (S, 500, MessageError ''Error extending booking'' TypeError)
      | Some c \<Rightarrow>
     (case daysRented_date updatedRentalEndDateTime rentalStartDateTime of
        None \<Rightarrow> (S, 400, Message ''Failed to calculate total price.'')
      | Some days \<Rightarrow>
     (case js_times days (rentRate c) of
        None \<Rightarrow> (S, 400, Message ''Failed to calculate total price.'')
      | Some price \<Rightarrow>
      if number_le price (Finite 0) then (S, 400, Message ''Failed to calculate total price.'')
      else
     (let b' = b\<lparr>totalPrice := price\<rparr>;
          S1 = S\<lparr>bookings := Booking_save b' (bookings S)\<rparr>;
          S2 = createInvoice
            \<lparr>inv_id = booking_id b',
             inv_carId = car_id c,
             inv_userId = userId b',
             inv_rentalStartDate = rentalStartDate b',
             inv_rentalEndDate = rentalEndDate b',
             inv_rentalStartTime = rentalStartTime b',
             inv_rentalEndTime = rentalEndTime b',
             inv_totalPrice = price\<rparr> S1
      in (S2, 200,
          MessageBookingInvoice ''Booking extended successfully'' b'
            (invoiceUrl req (booking_id b')))))))"

definition extendBooking :: "env \<Rightarrow> store \<Rightarrow> request \<Rightarrow> store \<times> response" where
  "extendBooking E S req =
     (case Booking_findById (params_bookingId req) (bookings S) of
        None \<Rightarrow> (S, 404, Message ''Booking not found'')
      | Some b \<Rightarrow>
     (let currentTime = Some (now E);
          rentalStartDateTime = parseDate E (rentalStartDate b @ ''T'' @ rentalStartTime b)
      in
      if date_le rentalStartDateTime currentTime
      then (S, 400, Message ''You can only extend the booking before the rental start time.'')
      else if truthy (body_rentalEndDate req) \<and> parseDate E (str (body_rentalEndDate req)) = None
      then (S, 400, Message ''Invalid rental end date format.'')
      else if truthy (body_rentalEndTime req) \<and> \<not> is_HH_MM (str (body_rentalEndTime req))
      then (S, 400, Message ''Invalid rental end time format.'')
      else
     (let b1 = b\<lparr>rentalEndDate := override (body_rentalEndDate req) (rentalEndDate b),
                 rentalEndTime := override (body_rentalEndTime req) (rentalEndTime b)\<rparr>;
          updatedRentalEndDateTime = parseDate E (rentalEndDate b1 @ ''T'' @ rentalEndTime b1)
      in
      if date_le updatedRentalEndDateTime rentalStartDateTime
      then (S, 400, Message ''Rental end time must be after the rental start time.'')
      else
     (case findOne (extendBooking_overlap (populated_id (populate b S)) (params_bookingId req)
                      (rentalStartDate b1) (rentalEndDate b1))
             (bookings S) of
        Some overlappingBooking \<Rightarrow>
          (S, 400, Message ''The car is already booked for the selected dates.'')
      | None \<Rightarrow>
          extendBooking_save S req b1 (populate b S) updatedRentalEndDateTime
            rentalStartDateTime))))"

subsection \<open>cancelBooking\<close>

text \<open>The filter of line 512.\<close>

definition cancelBooking_filter :: "string \<Rightarrow> string \<Rightarrow> query" where
  "cancelBooking_filter bookingId uid =
     [Field ''_id'' [Eq (Str bookingId)], Field ''userId'' [Eq (Str uid)]]"

definition cancelBooking :: "store \<Rightarrow> request \<Rightarrow> store \<times> response" where
  "cancelBooking S req =
     (case findOne (cancelBooking_filter (params_bookingId req) (req_user req)) (bookings S) of
        None \<Rightarrow> (S, 404, Message ''Booking not found or unauthorized access.'')
      | Some b \<Rightarrow>
     (let S1 = (case Car_findById (carId b) (cars S) of
                  None \<Rightarrow> S
                | Some c \<Rightarrow> S\<lparr>cars := Car_save (c\<lparr>availability := ''Available''\<rparr>) (cars S)\<rparr>);
          S2 = S1\<lparr>bookings := Booking_findByIdAndDelete (params_bookingId req) (bookings S1)\<rparr>
      in (S2, 200, Message ''Booking canceled successfully.'')))"

subsection \<open>Return_car\<close>

text \<open>Modelled from the spec: the notifier \<open>io\<close> of \<open>index.js\<close>, which is not among the
  sources. \<open>io.emit(channel, {message})\<close> publishes on a named channel and waits for nothing
  (section 6); the model records the event.\<close>

definition io_emit :: "string \<Rightarrow> string \<Rightarrow> store \<Rightarrow> store" where
  "io_emit channel msg S = S\<lparr>emitted := emitted S @ [(channel, msg)]\<rparr>"

text \<open>\<open>booking.carId._id\<close> throws when the populated car is \<open>null\<close>.\<close>

definition Return_car :: "store \<Rightarrow> request \<Rightarrow> store \<times> response" where
  "Return_car S req =
     (case Booking_findById (params_BookingId req) (bookings S) of
        None \<Rightarrow> (S, 404, Message ''Booking not found'')
      | Some b \<Rightarrow>
     (case populate b S of
        None \<Rightarrow> (S, 500, MessageError ''Something went wrong'' TypeError)
      | Some p \<Rightarrow>
     (case Car_findById (car_id p) (cars S) of
        None \<Rightarrow> (S, 404, Message ''car not found'')
      | Some c \<Rightarrow>
          (io_emit (''notification'' @ car_userId c) ''Car return request recieved'' S,
           200, Message ''Return request sent to showroom  owner for approved''))))"

subsection \<open>Example data\<close>

text \<open>A store with two cars, a booking of the first car in June and an earlier one of
  the second, and a clock before the June booking's start.\<close>

definition booking1 :: booking where
  "booking1 =
     \<lparr>booking_id = ''b1'', carId = ''c1'', userId = ''u1'', showroomId = ''s1'',
      rentalStartDate = ''2030-06-01'', rentalStartTime = ''10:00'',
      rentalEndDate = ''2030-06-03'', rentalEndTime = ''10:00'', totalPrice = Finite 300\<rparr>"

text \<open>An earlier booking of the second car, in May.\<close>

definition booking0 :: booking where
  "booking0 =
     \<lparr>booking_id = ''b0'', carId = ''c2'', userId = ''u4'', showroomId = ''s1'',
      rentalStartDate = ''2030-05-01'', rentalStartTime = ''9:00 AM'',
      rentalEndDate = ''2030-05-05'', rentalEndTime = ''9:00 AM'', totalPrice = Finite 500\<rparr>"

definition car1 :: car where
  "car1 = \<lparr>car_id = ''c1'', availability = ''Rented Out'', rentRate = Finite 100, car_userId = ''o1''\<rparr>"

definition car2 :: car where
  "car2 = \<lparr>car_id = ''c2'', availability = ''Available'', rentRate = Finite 100, car_userId = ''o2''\<rparr>"

definition store1 :: store where
  "store1 =
     \<lparr>bookings = [booking0, booking1], cars = [car1, car2], invoices = [], emitted = []\<rparr>"

text \<open>The example engine. Its parser reads the date strings in the ISO form that are used
  below, with an offset (the seconds may be left out), or without one as the local time of
  a server on UTC. Like V8, it reads nothing but the ISO form after the \<open>T\<close>: a time in
  the 12-hour form there is Invalid Date. The round trip through the Karachi wall clock
  drops the milliseconds and adds five hours. \<open>Number\<close> and the string of a number are given
  on the hours and minutes that the examples use.\<close>

definition parse1 :: "string \<Rightarrow> date" where
  "parse1 s =
     (if s = ''2030-06-01T10:00:00+05:00'' then Some 1906520400000
      else if s = ''2030-06-03T10:00:00+05:00'' then Some 1906693200000
      else if s = ''2030-06-01T10:00+05:00'' then Some 1906520400000
      else if s = ''2030-06-01T10:00'' then Some 1906538400000
      else if s = ''2030-06-03T10:00'' then Some 1906711200000
      else if s = ''2030-06-05T10:00'' then Some 1906884000000
      else if s = ''2030-06-05'' then Some 1906848000000
      else None)"

definition iso1 :: "int \<Rightarrow> string" where
  "iso1 t =
     (if t = 1906520400000 then ''2030-06-01T05:00:00.000Z''
      else if t = 1906693200000 then ''2030-06-03T05:00:00.000Z''
      else [])"

definition number1 :: "string \<Rightarrow> number option" where
  "number1 s =
     (if s = ''10'' then Some (Finite 10)
      else if s = ''00'' then Some (Finite 0)
      else None)"

definition string1 :: "number option \<Rightarrow> string" where
  "string1 v =
     (if v = Some (Finite 10) then ''10''
      else if v = Some (Finite 12) then ''12''
      else if v = Some (Finite 0) then ''0''
      else ''NaN'')"

definition env1 :: env where
  "env1 = \<lparr>now = 1900000000000, parseDate = parse1, toISOString = iso1,
            toKarachi = (\<lambda>t. Some (t div 1000 * 1000 + 18000000)),
            toNumber = number1, numToString = string1, newId = ''b2''\<rparr>"

text \<open>The same engine once the booking has started.\<close>

definition env2 :: env where
  "env2 = env1\<lparr>now := 1906600000000\<rparr>"

text \<open>Requests: a booking of the second car by \<open>u2\<close>, and the same for the first car.\<close>

definition request0 :: request where
  "request0 =
     \<lparr>body_carId = None, body_showroomId = None,
      body_rentalStartDate = None, body_rentalStartTime = None,
      body_rentalEndDate = None, body_rentalEndTime = None,
      params_bookingId = ''b1'', params_BookingId = ''b1'',
      req_user = ''u2'', req_protocol = ''https'', req_host = ''swiftride.example''\<rparr>"

definition request1 :: request where
  "request1 =
     request0\<lparr>body_carId := Some ''c2'', body_showroomId := Some ''s1'',
       body_rentalStartDate := Some ''2030-06-01'', body_rentalStartTime := Some ''10:00'',
       body_rentalEndDate := Some ''2030-06-03'', body_rentalEndTime := Some ''10:00''\<rparr>"

definition request_c1 :: request where
  "request_c1 = request1\<lparr>body_carId := Some ''c1''\<rparr>"

text \<open>The same booking with the start time given as \<open>10\<close>, which the template of line 66
  completes to the same date.\<close>

definition request_hour :: request where
  "request_hour = request1\<lparr>body_rentalStartTime := Some ''10''\<rparr>"

text \<open>A third car at a tenth a day, as the double nearest to it, alone in its store; the
  same booking for it; and the booking \<open>bookCar\<close> stores, whose price is the double
  \<open>0.30000000000000004\<close>.\<close>

definition car3 :: car where
  "car3 =
     \<lparr>car_id = ''c3'', availability = ''Available'',
      rentRate = Finite (3602879701896397 / 36028797018963968), car_userId = ''o3''\<rparr>"

definition store_c3 :: store where
  "store_c3 = \<lparr>bookings = [], cars = [car3], invoices = [], emitted = []\<rparr>"

definition request_c3 :: request where
  "request_c3 = request1\<lparr>body_carId := Some ''c3''\<rparr>"

definition booking_c3 :: booking where
  "booking_c3 =
     \<lparr>booking_id = ''b2'', carId = ''c3'', userId = ''u2'', showroomId = ''s1'',
      rentalStartDate = ''2030-06-01'', rentalStartTime = ''10:00 AM'',
      rentalEndDate = ''2030-06-03'', rentalEndTime = ''10:00 AM'',
      totalPrice = Finite (5404319552844596 / 18014398509481984)\<rparr>"

text \<open>The booking \<open>bookCar\<close> stores for \<open>request1\<close>, and the store it leaves.\<close>

definition booking2 :: booking where
  "booking2 =
     \<lparr>booking_id = ''b2'', carId = ''c2'', userId = ''u2'', showroomId = ''s1'',
      rentalStartDate = ''2030-06-01'', rentalStartTime = ''10:00 AM'',
      rentalEndDate = ''2030-06-03'', rentalEndTime = ''10:00 AM'', totalPrice = Finite 300\<rparr>"

definition store2 :: store where
  "store2 =
     \<lparr>bookings = [booking0, booking1, booking2],
      cars = [car1, car2\<lparr>availability := ''Rented Out''\<rparr>],
      invoices =
        [\<lparr>inv_id = ''b2'', inv_carId = ''c2'', inv_userId = ''u2'',
          inv_rentalStartDate = ''2030-06-01'', inv_rentalEndDate = ''2030-06-03'',
          inv_rentalStartTime = ''10:00 AM'', inv_rentalEndTime = ''10:00 AM'',
          inv_totalPrice = Finite 300\<rparr>],
      emitted = []\<rparr>"

text \<open>Updates of the stored bookings: new start and end, and a new end date alone.\<close>

definition request_move :: request where
  "request_move =
     request0\<lparr>body_rentalStartDate := Some ''2030-06-03'', body_rentalStartTime := Some ''10:00'',
       body_rentalEndDate := Some ''2030-06-05'', body_rentalEndTime := Some ''10:00''\<rparr>"

definition request_end :: request where
  "request_end = request0\<lparr>body_rentalEndDate := Some ''2030-06-05''\<rparr>"

definition request_extend :: request where
  "request_extend =
     request0\<lparr>body_rentalEndDate := Some ''2030-06-05'', body_rentalEndTime := Some ''10:00''\<rparr>"

text \<open>A second booking of the first car, from the 4th to the 6th of June.\<close>

definition booking3 :: booking where
  "booking3 =
     \<lparr>booking_id = ''b3'', carId = ''c1'', userId = ''u3'', showroomId = ''s1'',
      rentalStartDate = ''2030-06-04'', rentalStartTime = ''10:00'',
      rentalEndDate = ''2030-06-06'', rentalEndTime = ''10:00'', totalPrice = Finite 300\<rparr>"

definition store3 :: store where
  "store3 = store1\<lparr>bookings := [booking1, booking3]\<rparr>"

section \<open>Properties\<close>

subsection \<open>Filters and lookups\<close>

lemma booking_doc_dates:
  "booking_doc b ''rentalStartDate'' = Some (Str (rentalStartDate b))"
  "booking_doc b ''rentalEndDate'' = Some (Str (rentalEndDate b))"
  "booking_doc b ''carId'' = Some (Str (carId b))"
  by (simp_all add: booking_doc_def)

lemma booking_doc_rentalStart:
  "booking_doc b ''rentalStart'' = None"
  "booking_doc b ''rentalEnd'' = None"
  by (simp_all add: booking_doc_def)

lemma bookCar_or_clauses:
  "matches_filter (booking_doc b) (bookCar_or rsd red) \<longleftrightarrow>
     (rentalStartDate b \<le> red \<and> rsd \<le> rentalEndDate b)
     \<or> (rsd \<le> rentalStartDate b \<and> rentalStartDate b \<le> red)
     \<or> (rsd \<le> rentalEndDate b \<and> rentalEndDate b \<le> red)"
  by (simp add: bookCar_or_def holds_field_def booking_doc_dates)

lemma bookCar_overlap_carId:
  "matches (booking_doc b) (bookCar_overlap cid rsd red)
     \<longleftrightarrow> carId b = cid \<and> matches_filter (booking_doc b) (bookCar_or rsd red)"
  by (auto simp add: matches_def bookCar_overlap_def holds_field_def booking_doc_dates)

lemma bookCar_overlap_none:
  assumes "\<forall>b \<in> set bs. carId b = cid \<longrightarrow>
             (rentalStartDate b < rsd \<and> rentalEndDate b < rsd)
             \<or> (red < rentalStartDate b \<and> red < rentalEndDate b)"
  shows "findOne (bookCar_overlap cid rsd red) bs = None"
proof -
  have "\<not> matches (booking_doc b) (bookCar_overlap cid rsd red)" if "b \<in> set bs" for b
  proof
    assume "matches (booking_doc b) (bookCar_overlap cid rsd red)"
    then have cid: "carId b = cid" and hit: "matches_filter (booking_doc b) (bookCar_or rsd red)"
      by (simp_all add: bookCar_overlap_carId)
    from assms that cid have "(rentalStartDate b < rsd \<and> rentalEndDate b < rsd)
             \<or> (red < rentalStartDate b \<and> red < rentalEndDate b)" by auto
    with hit show False
      unfolding bookCar_or_clauses by (meson leD)
  qed
  then show ?thesis by (auto simp add: findOne_def find_None_iff)
qed

lemma updateBooking_overlap_no_match:
  "\<not> matches (booking_doc b) (updateBooking_overlap cid bid ue us)"
  by (simp add: matches_def updateBooking_overlap_def holds_field_def booking_doc_rentalStart)

lemma updateBooking_overlap_none:
  "findOne (updateBooking_overlap cid bid ue us) bs = None"
  by (simp add: findOne_def find_None_iff updateBooking_overlap_no_match)

lemma Car_findById_id: "Car_findById i cs = Some c \<Longrightarrow> car_id c = i"
  by (auto simp add: Car_findById_def find_Some_iff)

lemma Car_findById_save:
  assumes "Car_findById i cs = Some c" and "car_id c' = i"
  shows "Car_findById i (Car_save c' cs) = Some c'"
  using assms unfolding Car_findById_def Car_save_def
  by (induction cs) (auto split: if_splits)

subsection \<open>Strings and days\<close>

lemma split_nonempty: "split c s \<noteq> []"
  by (induction s) (auto split: list.splits)

lemma split_two: "c \<in> set s \<Longrightarrow> \<exists>x y r. split c s = x # y # r"
proof (induction s)
  case Nil
  then show ?case by simp
next
  case (Cons a s)
  show ?case
  proof (cases "a = c")
    case True
    obtain y r where "split c s = y # r"
      using split_nonempty [of c s] by (cases "split c s") auto
    with True show ?thesis by simp
  next
    case False
    with Cons.prems have "c \<in> set s" by simp
    from Cons.IH [OF this] obtain x y r where "split c s = x # y # r" by blast
    with False show ?thesis by simp
  qed
qed

lemma split_one: "c \<notin> set s \<Longrightarrow> split c s = [s]"
  by (induction s) auto

text \<open>A time with a colon is formatted; without one, \<open>formatTimeTo12Hour\<close> throws.\<close>

lemma formatTimeTo12Hour_colon:
  assumes "CHR '':'' \<in> set t"
  shows "\<exists>r. formatTimeTo12Hour E t = Inr r"
proof -
  from split_two [OF assms] obtain x y r where "split CHR '':'' t = x # y # r" by blast
  then show ?thesis by (simp add: formatTimeTo12Hour_def Let_def)
qed

lemma formatTimeTo12Hour_no_colon:
  assumes "CHR '':'' \<notin> set t"
  shows "formatTimeTo12Hour E t = Inl TypeError"
  by (simp add: formatTimeTo12Hour_def split_one [OF assms])

lemma formatTimeTo12Hour_10_00: "formatTimeTo12Hour env1 ''10:00'' = Inr ''10:00 AM''"
  by (simp add: formatTimeTo12Hour_def env1_def number1_def string1_def js_ge12_def
      js_rem12_def js_or12_def padStart_def)

lemma rentalDuration_ceiling:
  "\<lceil>rentalDuration e s\<rceil> = \<lceil>real_of_int (e - s) / 86400000\<rceil> + 1"
  by (simp add: rentalDuration_def)

lemma ceiling_days_div:
  "\<lceil>real_of_int d / 86400000\<rceil> = - ((- d) div 86400000)"
proof -
  have "\<lceil>real_of_int d / real_of_int 86400000\<rceil> = - ((- d) div 86400000)"
    by (rule ceiling_divide_eq_div)
  then show ?thesis by simp
qed

text \<open>After the check of line 81 the floor at 0 is not reached.\<close>

lemma daysRented_pos: "s \<le> e \<Longrightarrow> 1 \<le> daysRented e s"
proof -
  assume "s \<le> e"
  then have "(s - e) div 86400000 \<le> 0"
    by (simp add: div_nonpos_pos_le0)
  then show ?thesis
    unfolding daysRented_def rentalDuration_ceiling ceiling_days_div by simp
qed

subsection \<open>Rounding to a double\<close>

text \<open>The double nearest to a tenth. Three times it lies halfway between two doubles, and
  is rounded to the even one, above it.\<close>

lemma round_double_tenth_rate:
  "round_double (1 / 10) = Finite (3602879701896397 / 36028797018963968)"
  by (simp add: round_double_def binary_exponent_def exp_down.simps pow2_def
      round_half_even_def Let_def)

lemma round_double_tenth:
  "round_double (3 * (3602879701896397 / 36028797018963968))
     = Finite (5404319552844596 / 18014398509481984)"
  by (simp add: round_double_def binary_exponent_def exp_down.simps pow2_def
      round_half_even_def Let_def)

lemma exp_up_ge: "e \<le> exp_up n e x"
proof (induction n e x rule: exp_up.induct)
  case (1 n e x)
  show ?case
  proof (cases "n = 0 \<or> x < 2")
    case True
    then show ?thesis by (simp add: exp_up.simps)
  next
    case False
    with "1" have "e + 1 \<le> exp_up (n - 1) (e + 1) (x / 2)" by simp
    with False show ?thesis by (simp add: exp_up.simps [of n e x])
  qed
qed

lemma exp_up_le: "x < 2 ^ Suc k \<Longrightarrow> exp_up n e x \<le> e + int k"
proof (induction n e x arbitrary: k rule: exp_up.induct)
  case (1 n e x)
  show ?case
  proof (cases "n = 0 \<or> x < 2")
    case True
    then show ?thesis by (simp add: exp_up.simps)
  next
    case False
    then have x2: "2 \<le> x" by simp
    with "1.prems" have "k \<noteq> 0" by (cases k) auto
    then obtain j where k: "k = Suc j" by (cases k) auto
    with "1.prems" have "x / 2 < 2 ^ Suc j" by simp
    with "1.IH" [OF False] have "exp_up (n - 1) (e + 1) (x / 2) \<le> e + 1 + int j" by simp
    with False k show ?thesis by (simp add: exp_up.simps [of n e x])
  qed
qed

lemma round_half_even_int: "round_half_even (of_int m) = m"
  by (simp add: round_half_even_def)

text \<open>An integer below \<open>2^53\<close> in size is a double.\<close>

lemma round_double_int:
  assumes "\<bar>n\<bar> < 2 ^ 53"
  shows "round_double (of_int n) = Finite (of_int n)"
proof (cases "n = 0")
  case True
  then show ?thesis by (simp add: round_double_def)
next
  case False
  then have one: "1 \<le> \<bar>real_of_int n\<bar>"
    by (metis abs_ge_zero of_int_abs of_int_1_le_iff zabs_def zero_less_abs_iff
        int_one_le_iff_zero_less)
  define e where "e = exp_up 1023 0 \<bar>real_of_int n\<bar>"
  have below: "\<bar>real_of_int n\<bar> < 2 ^ Suc 52"
    using assms
    by (metis numeral_power_eq_of_int_cancel_iff of_int_abs of_int_less_iff Suc_numeral
        semiring_norm(5,8))
  then have up: "e \<le> 52"
    unfolding e_def using exp_up_le [of "\<bar>real_of_int n\<bar>" 52 1023 0] by simp
  have lo: "0 \<le> e"
    unfolding e_def by (rule exp_up_ge)
  define k where "k = nat (52 - e)"
  have q: "pow2 (e - 52) = 1 / 2 ^ k"
    using up lo unfolding pow2_def k_def by (cases "e = 52") auto
  have "real_of_int n / (1 / 2 ^ k) = of_int (n * 2 ^ k)"
    by simp
  then have m: "round_half_even (real_of_int n / (1 / 2 ^ k)) = n * 2 ^ k"
    using round_half_even_int by metis
  have r: "of_int (n * 2 ^ k) * (1 / 2 ^ k) = real_of_int n"
    by simp
  have small: "\<not> 2 ^ 1024 \<le> \<bar>real_of_int n\<bar>"
  proof -
    have "\<bar>real_of_int n\<bar> < 2 ^ 53"
      using below by simp
    moreover have "(2::real) ^ 53 \<le> 2 ^ 1024"
      by (rule power_increasing) simp_all
    ultimately show ?thesis by linarith
  qed
  have be: "binary_exponent (real_of_int n) = e"
    using one by (simp add: binary_exponent_def e_def)
  have "real_of_int (round_half_even (real_of_int n / pow2 (e - 52))) * pow2 (e - 52)
      = of_int (n * 2 ^ k) * (1 / 2 ^ k)"
    by (simp only: q m)
  with r have rr: "real_of_int (round_half_even (real_of_int n / pow2 (e - 52))) * pow2 (e - 52)
      = real_of_int n"
    by (simp only:)
  have nz: "real_of_int n \<noteq> 0"
    using False by simp
  show ?thesis
    unfolding round_double_def Let_def be rr
    using nz small by (simp only: if_False)
qed

text \<open>\<open>round_double\<close> is the rounding to the nearest double, ties to even: the integer
  nearest to \<open>x / q\<close> is taken, the even one at a tie; the exponent found brackets \<open>x\<close>;
  a finite result is a double, and no double is nearer to \<open>x\<close>; the result is finite
  below \<open>2^1024 - 2^970\<close>.\<close>

lemma round_half_even_nearest:
  "\<bar>of_int (round_half_even y) - y\<bar> \<le> \<bar>of_int k - y\<bar>"
proof -
  define f where "f = \<lfloor>y\<rfloor>"
  have lo: "of_int f \<le> y" and hi: "y < of_int f + 1"
    unfolding f_def by linarith+
  have "k \<le> f \<or> f + 1 \<le> k" by linarith
  then have k: "real_of_int k \<le> of_int f \<or> of_int f + 1 \<le> real_of_int k"
    by (metis of_int_le_iff of_int_add of_int_1)
  have "round_half_even y = f \<and> y - of_int f \<le> 1 / 2
      \<or> round_half_even y = f + 1 \<and> 1 / 2 \<le> y - of_int f"
    unfolding round_half_even_def f_def [symmetric] Let_def by auto
  then show ?thesis
  proof (elim disjE conjE)
    assume r: "round_half_even y = f" and h: "y - of_int f \<le> 1 / 2"
    from k lo hi h show ?thesis unfolding r by linarith
  next
    assume r: "round_half_even y = f + 1" and h: "1 / 2 \<le> y - of_int f"
    have "real_of_int (f + 1) = of_int f + 1" by simp
    with k lo hi h show ?thesis unfolding r by linarith
  qed
qed

lemma round_half_even_mono:
  "of_int N \<le> y \<Longrightarrow> N \<le> round_half_even y"
  "y \<le> of_int N \<Longrightarrow> round_half_even y \<le> N"
proof -
  have *: "\<bar>of_int (round_half_even y) - y\<bar> \<le> \<bar>of_int N - y\<bar>"
    by (rule round_half_even_nearest)
  show "N \<le> round_half_even y" if "of_int N \<le> y"
  proof -
    from * that have "real_of_int N \<le> of_int (round_half_even y)" by linarith
    then show ?thesis by (simp only: of_int_le_iff)
  qed
  show "round_half_even y \<le> N" if "y \<le> of_int N"
  proof -
    from * that have "real_of_int (round_half_even y) \<le> of_int N" by linarith
    then show ?thesis by (simp only: of_int_le_iff)
  qed
qed

lemma exp_up_bracket:
  "1 \<le> x \<Longrightarrow>
    \<exists>k\<le>n. exp_up n e x = e + int k \<and> 2 ^ k \<le> x \<and> (x < 2 ^ Suc k \<or> k = n)"
proof (induction n e x rule: exp_up.induct)
  case (1 n e x)
  show ?case
  proof (cases "n = 0 \<or> x < 2")
    case True
    then have "exp_up n e x = e" by (simp add: exp_up.simps [of n e x])
    with True "1.prems" show ?thesis
      by (intro exI [of _ 0]) auto
  next
    case False
    then have n: "Suc (n - 1) = n" by simp
    from False have step: "exp_up n e x = exp_up (n - 1) (e + 1) (x / 2)"
      by (simp add: exp_up.simps [of n e x])
    from False have "1 \<le> x / 2" by simp
    from "1.IH" [OF False this] obtain k where k: "k \<le> n - 1"
      "exp_up (n - 1) (e + 1) (x / 2) = e + 1 + int k" "2 ^ k \<le> x / 2"
      "x / 2 < 2 ^ Suc k \<or> k = n - 1"
      by blast
    from k(1) n have "Suc k \<le> n" by linarith
    moreover from k(4) n have "x / 2 < 2 ^ Suc k \<or> Suc k = n" by auto
    ultimately show ?thesis using k step
      by (intro exI [of _ "Suc k"]) auto
  qed
qed

lemma exp_down_bracket:
  "x < 2 \<Longrightarrow>
    \<exists>k\<le>n. exp_down n e x = e - int k \<and> x * 2 ^ k < 2 \<and> (1 \<le> x * 2 ^ k \<or> k = n)"
proof (induction n e x rule: exp_down.induct)
  case (1 n e x)
  show ?case
  proof (cases "n = 0 \<or> 1 \<le> x")
    case True
    then have "exp_down n e x = e" by (simp add: exp_down.simps [of n e x])
    with True "1.prems" show ?thesis
      by (intro exI [of _ 0]) auto
  next
    case False
    then have n: "Suc (n - 1) = n" by simp
    from False have step: "exp_down n e x = exp_down (n - 1) (e - 1) (x * 2)"
      by (simp add: exp_down.simps [of n e x])
    from False have "x * 2 < 2" by simp
    from "1.IH" [OF False this] obtain k where k: "k \<le> n - 1"
      "exp_down (n - 1) (e - 1) (x * 2) = e - 1 - int k" "x * 2 * 2 ^ k < 2"
      "1 \<le> x * 2 * 2 ^ k \<or> k = n - 1"
      by blast
    from k(1) n have "Suc k \<le> n" by linarith
    moreover from k(4) n have "1 \<le> x * 2 * 2 ^ k \<or> Suc k = n" by auto
    ultimately show ?thesis using k step
      by (intro exI [of _ "Suc k"]) (simp add: mult.assoc)
  qed
qed

lemma pow2_powi: "pow2 k = 2 powi k"
  by (simp add: pow2_def power_int_def inverse_eq_divide power_one_over)

lemma pow2_pos: "0 < pow2 k"
  by (simp add: pow2_powi)

lemma pow2_add: "pow2 (a + b) = pow2 a * pow2 b"
  by (simp add: pow2_powi power_int_add)

lemma pow2_mono: "a \<le> b \<Longrightarrow> pow2 a \<le> pow2 b"
  by (simp add: pow2_powi power_int_increasing)

lemma pow2_less: "pow2 a < pow2 b \<Longrightarrow> a < b"
  using pow2_mono [of b a] by linarith

lemma pow2_nat: "pow2 (int n) = 2 ^ n"
  by (simp add: pow2_def)

lemma pow2_neg: "pow2 (- int n) = 1 / 2 ^ n"
  by (simp add: pow2_powi power_int_minus inverse_eq_divide)

text \<open>The exponent found for a number other than zero.\<close>

lemma binary_exponent_bracket:
  assumes "x \<noteq> 0"
  shows "- 1022 \<le> binary_exponent x" "binary_exponent x \<le> 1023"
    "pow2 (binary_exponent x) \<le> \<bar>x\<bar> \<or> binary_exponent x = - 1022"
    "\<bar>x\<bar> < pow2 (binary_exponent x + 1) \<or> binary_exponent x = 1023"
proof -
  have "- 1022 \<le> binary_exponent x \<and> binary_exponent x \<le> 1023
    \<and> (pow2 (binary_exponent x) \<le> \<bar>x\<bar> \<or> binary_exponent x = - 1022)
    \<and> (\<bar>x\<bar> < pow2 (binary_exponent x + 1) \<or> binary_exponent x = 1023)"
  proof (cases "1 \<le> \<bar>x\<bar>")
    case True
    from exp_up_bracket [OF True, of 1023 0] obtain k where k: "k \<le> 1023"
      "exp_up 1023 0 \<bar>x\<bar> = int k" "2 ^ k \<le> \<bar>x\<bar>" "\<bar>x\<bar> < 2 ^ Suc k \<or> k = 1023"
      by auto
    have e: "binary_exponent x = int k"
      using True k(2) by (simp add: binary_exponent_def)
    have "pow2 (int k + 1) = 2 ^ Suc k"
      using pow2_nat [of "Suc k"] by (simp add: add.commute)
    with k show ?thesis
      unfolding e by (auto simp add: pow2_nat)
  next
    case False
    then have "\<bar>x\<bar> < 2" by simp
    from exp_down_bracket [OF this, of 1022 0] obtain k where k: "k \<le> 1022"
      "exp_down 1022 0 \<bar>x\<bar> = - int k" "\<bar>x\<bar> * 2 ^ k < 2" "1 \<le> \<bar>x\<bar> * 2 ^ k \<or> k = 1022"
      by auto
    have e: "binary_exponent x = - int k"
      using False k(2) by (simp add: binary_exponent_def)
    have p: "pow2 (- int k) = 1 / 2 ^ k"
      by (rule pow2_neg)
    have "pow2 (- int k + 1) = pow2 (- int k) * pow2 1"
      by (rule pow2_add)
    then have p1: "pow2 (- int k + 1) = 2 / 2 ^ k"
      by (simp add: p pow2_def)
    from k(3) have up: "\<bar>x\<bar> < 2 / 2 ^ k"
      by (simp add: pos_less_divide_eq)
    from k(4) have lo: "1 / 2 ^ k \<le> \<bar>x\<bar> \<or> k = 1022"
      by (simp add: pos_divide_le_eq)
    from k(1) up lo show ?thesis
      unfolding e p p1 by auto
  qed
  then show "- 1022 \<le> binary_exponent x" "binary_exponent x \<le> 1023"
    "pow2 (binary_exponent x) \<le> \<bar>x\<bar> \<or> binary_exponent x = - 1022"
    "\<bar>x\<bar> < pow2 (binary_exponent x + 1) \<or> binary_exponent x = 1023"
    by simp_all
qed

lemma round_half_even_tie:
  "y - of_int \<lfloor>y\<rfloor> = 1 / 2 \<Longrightarrow> even (round_half_even y)"
  by (simp add: round_half_even_def Let_def)

lemma round_half_even_abs_le:
  assumes "\<bar>y\<bar> \<le> of_int N"
  shows "\<bar>round_half_even y\<bar> \<le> N"
proof -
  from assms have "y \<le> of_int N" "of_int (- N) \<le> y" by simp_all
  from round_half_even_mono(2) [OF this(1)] round_half_even_mono(1) [OF this(2)]
  show ?thesis by linarith
qed

lemma round_half_even_abs_ge:
  assumes "of_int N \<le> \<bar>y\<bar>"
  shows "N \<le> \<bar>round_half_even y\<bar>"
proof (cases "0 \<le> y")
  case True
  with assms have "of_int N \<le> y" by simp
  from round_half_even_mono(1) [OF this] show ?thesis by linarith
next
  case False
  with assms have "y \<le> of_int (- N)" by simp
  from round_half_even_mono(2) [OF this] show ?thesis by linarith
qed

lemma pow2_1024: "(2::real) ^ 1024 = pow2 1024"
  using pow2_nat [of 1024] by simp

lemma pow2_53: "pow2 (e + 1) = pow2 (e - 52) * 2 ^ 53"
proof -
  have a: "e + 1 = (e - 52) + 53" by simp
  show ?thesis
    unfolding a pow2_add using pow2_nat [of 53] by simp
qed

lemma round_double_Finite:
  assumes nz: "x \<noteq> 0" and fin: "round_double x = Finite r"
  shows "r = of_int (round_half_even (x / pow2 (binary_exponent x - 52)))
               * pow2 (binary_exponent x - 52)"
    and "\<bar>r\<bar> < pow2 1024"
proof -
  define r0 where "r0 = of_int (round_half_even (x / pow2 (binary_exponent x - 52)))
               * pow2 (binary_exponent x - 52)"
  have rd: "round_double x =
      (if pow2 1024 \<le> \<bar>r0\<bar> then (if 0 < x then PInfinity else NInfinity) else Finite r0)"
    unfolding round_double_def Let_def r0_def pow2_1024 using nz by (simp only: if_False)
  from fin have a: "r = r0" and b: "\<bar>r\<bar> < pow2 1024"
    unfolding rd by (auto split: if_splits)
  from a show "r = of_int (round_half_even (x / pow2 (binary_exponent x - 52)))
               * pow2 (binary_exponent x - 52)"
    unfolding r0_def .
  from b show "\<bar>r\<bar> < pow2 1024" .
qed

text \<open>What \<open>round_double\<close> gives when it is finite: the exponent, the quantum, the
  significand.\<close>

lemma round_double_parts:
  assumes nz: "x \<noteq> 0" and fin: "round_double x = Finite r"
  defines "e \<equiv> binary_exponent x"
  defines "q \<equiv> pow2 (e - 52)"
  defines "m \<equiv> round_half_even (x / q)"
  shows "r = of_int m * q" and "\<bar>x\<bar> < pow2 (e + 1)" and "\<bar>m\<bar> \<le> 2 ^ 53"
    and "\<bar>r\<bar> < pow2 1024"
proof -
  have r: "r = of_int m * q" and small: "\<bar>r\<bar> < pow2 1024"
    using round_double_Finite [OF nz fin] unfolding m_def q_def e_def by simp_all
  have q0: "0 < q"
    unfolding q_def by (rule pow2_pos)
  have top: "pow2 (e + 1) = q * 2 ^ 53"
    unfolding q_def by (rule pow2_53)
  have up: "\<bar>x\<bar> < pow2 (e + 1)"
  proof (rule ccontr)
    assume "\<not> \<bar>x\<bar> < pow2 (e + 1)"
    then have big: "pow2 (e + 1) \<le> \<bar>x\<bar>" by simp
    with binary_exponent_bracket(4) [OF nz] have e: "e = 1023"
      unfolding e_def by auto
    from big have "2 ^ 53 \<le> \<bar>x\<bar> / q"
      unfolding top using q0 by (simp add: pos_le_divide_eq mult.commute)
    then have "real_of_int (2 ^ 53) \<le> \<bar>x / q\<bar>"
      using q0 by simp
    from round_half_even_abs_ge [OF this] have "2 ^ 53 \<le> \<bar>m\<bar>"
      unfolding m_def .
    then have "real_of_int (2 ^ 53) \<le> of_int \<bar>m\<bar>"
      by (simp only: of_int_le_iff)
    then have "2 ^ 53 \<le> \<bar>real_of_int m\<bar>"
      by simp
    then have "q * 2 ^ 53 \<le> \<bar>real_of_int m\<bar> * q"
      using q0 by (simp add: mult.commute)
    then have "pow2 (e + 1) \<le> \<bar>r\<bar>"
      unfolding top r using q0 by (simp add: abs_mult)
    with small show False
      unfolding e by simp
  qed
  then have "\<bar>x\<bar> / q < 2 ^ 53"
    unfolding top using q0 by (simp add: pos_divide_less_eq mult.commute)
  then have "\<bar>x / q\<bar> \<le> real_of_int (2 ^ 53)"
    using q0 by simp
  from round_half_even_abs_le [OF this] have m: "\<bar>m\<bar> \<le> 2 ^ 53"
    unfolding m_def .
  from r up m small show "r = of_int m * q" and "\<bar>x\<bar> < pow2 (e + 1)" and "\<bar>m\<bar> \<le> 2 ^ 53"
    and "\<bar>r\<bar> < pow2 1024"
    by simp_all
qed

text \<open>A finite result is a double: a significand below \<open>2^53\<close> in size at an exponent
  between \<open>-1022\<close> and \<open>1023\<close>.\<close>

lemma round_double_is_double:
  assumes fin: "round_double x = Finite r"
  shows "\<exists>m e. - 1022 \<le> e \<and> e \<le> 1023 \<and> \<bar>m\<bar> < 2 ^ 53 \<and> r = of_int m * pow2 (e - 52)"
proof (cases "x = 0")
  case True
  with fin have "r = 0" by (simp add: round_double_def)
  then show ?thesis
    by (intro exI [of _ 0]) simp
next
  case nz: False
  define e where "e = binary_exponent x"
  define m where "m = round_half_even (x / pow2 (e - 52))"
  note parts = round_double_parts [OF nz fin, folded e_def, folded m_def]
  note range = binary_exponent_bracket(1,2) [OF nz, folded e_def]
  show ?thesis
  proof (cases "\<bar>m\<bar> < 2 ^ 53")
    case True
    with parts(1) range show ?thesis by blast
  next
    case False
    with parts(3) have m: "\<bar>m\<bar> = 2 ^ 53" by simp
    have "pow2 (e - 52 + 1) = pow2 (e - 52) * pow2 1"
      by (rule pow2_add)
    then have half: "pow2 (e - 51) = 2 * pow2 (e - 52)"
      by (simp add: pow2_def)
    have top: "pow2 (e + 1) = pow2 (e - 52) * 2 ^ 53"
      by (rule pow2_53)
    from m have "\<bar>real_of_int m\<bar> = 2 ^ 53"
      by (metis of_int_abs of_int_numeral of_int_power)
    then have "\<bar>r\<bar> = pow2 (e + 1)"
      unfolding parts(1) top using pow2_pos [of "e - 52"] by (simp add: abs_mult)
    with parts(4) have "e + 1 < 1024"
      by (simp add: pow2_less)
    then have e1: "e + 1 \<le> 1023" by simp
    from m have "m = 9007199254740992 \<or> m = - 9007199254740992"
      by (simp add: abs_if split: if_splits)
    then have md: "m = 2 * (m div 2)" and ms: "\<bar>m div 2\<bar> < 2 ^ 53"
      by auto
    from md have "real_of_int m = 2 * of_int (m div 2)"
      by (metis of_int_mult of_int_numeral)
    moreover have "e + 1 - 52 = e - 51"
      by simp
    ultimately have "r = of_int (m div 2) * pow2 (e + 1 - 52)"
      unfolding parts(1) using half by simp
    with e1 range(1) ms show ?thesis
      by (intro exI [of _ "m div 2"] exI [of _ "e + 1"]) simp
  qed
qed

lemma round_half_even_half: "\<bar>of_int (round_half_even y) - y\<bar> \<le> 1 / 2"
proof -
  have "of_int \<lfloor>y\<rfloor> \<le> y" "y < of_int \<lfloor>y\<rfloor> + 1"
    by linarith+
  moreover have "real_of_int (\<lfloor>y\<rfloor> + 1) = of_int \<lfloor>y\<rfloor> + 1"
    by simp
  ultimately show ?thesis
    using round_half_even_nearest [of y "\<lfloor>y\<rfloor>"] round_half_even_nearest [of y "\<lfloor>y\<rfloor> + 1"]
    by linarith
qed

text \<open>A finite result is as near to the real as any double is.\<close>

lemma round_double_nearest:
  assumes fin: "round_double x = Finite r"
    and dbl: "- 1022 \<le> e'" "e' \<le> 1023" "\<bar>m'\<bar> < 2 ^ 53"
  shows "\<bar>r - x\<bar> \<le> \<bar>of_int m' * pow2 (e' - 52) - x\<bar>"
proof (cases "x = 0")
  case True
  with fin have "r = 0" by (simp add: round_double_def)
  with True show ?thesis by simp
next
  case nz: False
  define e where "e = binary_exponent x"
  define q where "q = pow2 (e - 52)"
  define m where "m = round_half_even (x / q)"
  note parts = round_double_parts [OF nz fin, folded e_def, folded q_def, folded m_def]
  have q0: "0 < q"
    unfolding q_def by (rule pow2_pos)
  have grid: "\<bar>r - x\<bar> \<le> \<bar>of_int k * q - x\<bar>" for k
  proof -
    have "\<bar>of_int m - x / q\<bar> \<le> \<bar>of_int k - x / q\<bar>"
      unfolding m_def by (rule round_half_even_nearest)
    then have "q * \<bar>of_int m - x / q\<bar> \<le> q * \<bar>of_int k - x / q\<bar>"
      using q0 by simp
    moreover have "q * \<bar>of_int j - x / q\<bar> = \<bar>of_int j * q - x\<bar>" for j
    proof -
      have "of_int j * q - x = q * (of_int j - x / q)"
        using q0 by (simp add: field_simps)
      then show ?thesis
        using q0 by (simp add: abs_mult)
    qed
    ultimately show ?thesis
      unfolding parts(1) by simp
  qed
  show ?thesis
  proof (cases "e \<le> e'")
    case True
    define n where "n = nat (e' - e)"
    have "e' - 52 = int n + (e - 52)"
      using True by (simp add: n_def)
    then have p: "pow2 (e' - 52) = pow2 (int n) * q"
      unfolding q_def by (simp only: pow2_add)
    have "of_int (m' * 2 ^ n) * q = of_int m' * (pow2 (int n) * q)"
      by (simp add: pow2_nat)
    then have eq: "of_int m' * pow2 (e' - 52) = of_int (m' * 2 ^ n) * q"
      unfolding p by (simp only:)
    show ?thesis
      unfolding eq by (rule grid)
  next
    case False
    then have lt: "e' + 1 \<le> e" by simp
    with dbl(1) have "e \<noteq> - 1022" by simp
    with binary_exponent_bracket(3) [OF nz] have lo: "pow2 e \<le> \<bar>x\<bar>"
      unfolding e_def by simp
    have "\<bar>real_of_int m'\<bar> < 2 ^ 53"
      using dbl(3) by (metis of_int_abs of_int_less_iff of_int_numeral of_int_power)
    then have "\<bar>real_of_int m'\<bar> * pow2 (e' - 52) < 2 ^ 53 * pow2 (e' - 52)"
      using pow2_pos [of "e' - 52"] by simp
    then have "\<bar>of_int m' * pow2 (e' - 52)\<bar> < pow2 (e' + 1)"
      using pow2_pos [of "e' - 52"] by (simp add: abs_mult pow2_53 mult.commute)
    also have "\<dots> \<le> pow2 e"
      using lt by (rule pow2_mono)
    finally have y: "\<bar>of_int m' * pow2 (e' - 52)\<bar> < pow2 e" .
    have one: "pow2 e = 2 ^ 52 * q"
    proof -
      have "e = 52 + (e - 52)" by simp
      then have "pow2 e = pow2 52 * pow2 (e - 52)"
        using pow2_add [of 52 "e - 52"] by simp
      then show ?thesis
        unfolding q_def using pow2_nat [of 52] by simp
    qed
    show ?thesis
    proof (cases "0 < x")
      case True
      have "real_of_int (2 ^ 52) * q = pow2 e"
        unfolding one by simp
      with grid [of "2 ^ 52"] have "\<bar>r - x\<bar> \<le> \<bar>pow2 e - x\<bar>"
        by (simp only:)
      with True lo y show ?thesis by linarith
    next
      case False
      have "real_of_int (- (2 ^ 52)) * q = - pow2 e"
        unfolding one by simp
      with grid [of "- (2 ^ 52)"] have "\<bar>r - x\<bar> \<le> \<bar>- pow2 e - x\<bar>"
        by (simp only:)
      with False nz lo y show ?thesis by linarith
    qed
  qed
qed

text \<open>The result is an infinity only from \<open>2^1024 - 2^970\<close> on.\<close>

lemma round_double_overflow:
  assumes "\<bar>x\<bar> < pow2 1024 - pow2 970"
  shows "\<exists>r. round_double x = Finite r"
proof (cases "x = 0")
  case True
  then show ?thesis by (simp add: round_double_def)
next
  case nz: False
  define e where "e = binary_exponent x"
  define q where "q = pow2 (e - 52)"
  define m where "m = round_half_even (x / q)"
  have q0: "0 < q"
    unfolding q_def by (rule pow2_pos)
  have e: "e \<le> 1023"
    unfolding e_def by (rule binary_exponent_bracket(2) [OF nz])
  have "\<bar>of_int m - x / q\<bar> \<le> 1 / 2"
    unfolding m_def by (rule round_half_even_half)
  then have "q * \<bar>of_int m - x / q\<bar> \<le> q * (1 / 2)"
    using q0 by simp
  moreover have "q * \<bar>of_int m - x / q\<bar> = \<bar>of_int m * q - x\<bar>"
  proof -
    have "of_int m * q - x = q * (of_int m - x / q)"
      using q0 by (simp add: field_simps)
    then show ?thesis
      using q0 by (simp add: abs_mult)
  qed
  ultimately have near: "\<bar>of_int m * q - x\<bar> \<le> q / 2"
    by simp
  have "q \<le> pow2 971"
    unfolding q_def using e by (intro pow2_mono) simp
  moreover have "pow2 971 = 2 * pow2 970"
    using pow2_add [of 1 970] by (simp add: pow2_def)
  ultimately have "q / 2 \<le> pow2 970"
    by simp
  with near assms have "\<bar>of_int m * q\<bar> < pow2 1024"
    by linarith
  then have "\<not> 2 ^ 1024 \<le> \<bar>of_int m * q\<bar>"
    unfolding pow2_1024 by simp
  then have "round_double x = Finite (of_int m * q)"
    unfolding round_double_def Let_def m_def q_def e_def using nz by (simp only: if_False)
  then show ?thesis ..
qed

text \<open>The product of the days and an integer rate is exact below \<open>2^53\<close>; with one day
  or more the product is a number.\<close>

lemma js_times_int:
  assumes "\<bar>d * n\<bar> < 2 ^ 53"
  shows "js_times d (Finite (of_int n)) = Some (Finite (of_int (d * n)))"
  using round_double_int [OF assms] by (simp add: js_times_def)

lemma js_times_pos: "1 \<le> d \<Longrightarrow> \<exists>p. js_times d r = Some p"
  by (cases r) (simp_all add: js_times_def)

lemma js_times_Finite: "js_times d (Finite x) = Some (round_double (of_int d * x))"
  by (simp add: js_times_def)

lemma js_times_example: "js_times 3 (Finite 100) = Some (Finite 300)"
  using js_times_int [of 3 100] by simp

lemma js_times_tenth:
  "js_times 3 (Finite (3602879701896397 / 36028797018963968))
     = Some (Finite (5404319552844596 / 18014398509481984))"
  using round_double_tenth by (simp add: js_times_def)

subsection \<open>bookCar on the example\<close>

lemma bookCar_catch_status: "fst (bookCar_catch x) \<noteq> 201"
  by (cases x) simp_all

lemma bookCar_create_Inr:
  assumes "bookCar_create E S req c ds de = Inr (S', st, body)"
  shows "\<exists>s e b. ds = Some s \<and> de = Some e
     \<and> st = 201
     \<and> body = MessageBookingInvoice ''Car booked successfully'' b
         (req_protocol req @ ''://'' @ req_host req @ ''/api/bookcar/invoices/invoice_''
          @ booking_id b @ ''.pdf'')
     \<and> bookings S' = bookings S @ [b]
     \<and> js_times (daysRented e s) (rentRate c) = Some (totalPrice b)"
  using assms
  by (auto simp add: bookCar_create_def Let_def Booking_insert_def createInvoice_def
      invoiceUrl_def split: option.splits sum.splits)

lemma daysRented_example: "daysRented 1906693200000 1906520400000 = 3"
  by (simp add: daysRented_def rentalDuration_def)

lemma findOne_example:
  "findOne (bookCar_overlap ''c2'' ''2030-06-01'' ''2030-06-03'') [booking0, booking1] = None"
  by (simp add: findOne_def bookCar_overlap_carId bookCar_or_clauses booking0_def booking1_def)

text \<open>Booking the second car from the 1st to the 3rd of June at 100 a day: three days, a
  price of 300, the car rented out, and the times stored in the 12-hour form.\<close>

lemma bookCar_example:
  "bookCar env1 store1 request1 =
     (store2, 201,
      MessageBookingInvoice ''Car booked successfully'' booking2
        ''https://swiftride.example/api/bookcar/invoices/invoice_b2.pdf'')"
  by (simp add: bookCar_def bookCar_create_def Let_def env1_def store1_def store2_def
      request1_def request0_def truthy_def str_def Car_findById_def car1_def car2_def
      findOne_example parse1_def iso1_def date_lt_def daysRented_example js_times_example
      formatTimeTo12Hour_10_00 [unfolded env1_def] split0_def booking2_def Booking_insert_def
      createInvoice_def Car_save_def invoiceUrl_def)

text \<open>The same at a tenth a day: the price stored is not three tenths of the rate's
  value.\<close>

lemma bookCar_example_tenth:
  "bookCar env1 store_c3 request_c3 =
     (\<lparr>bookings = [booking_c3],
       cars = [car3\<lparr>availability := ''Rented Out''\<rparr>],
       invoices =
         [\<lparr>inv_id = ''b2'', inv_carId = ''c3'', inv_userId = ''u2'',
           inv_rentalStartDate = ''2030-06-01'', inv_rentalEndDate = ''2030-06-03'',
           inv_rentalStartTime = ''10:00 AM'', inv_rentalEndTime = ''10:00 AM'',
           inv_totalPrice = Finite (5404319552844596 / 18014398509481984)\<rparr>],
       emitted = []\<rparr>, 201,
      MessageBookingInvoice ''Car booked successfully'' booking_c3
        ''https://swiftride.example/api/bookcar/invoices/invoice_b2.pdf'')"
  by (simp add: bookCar_def bookCar_create_def Let_def env1_def store_c3_def
      request_c3_def request1_def request0_def truthy_def str_def Car_findById_def car3_def
      findOne_def parse1_def iso1_def date_lt_def daysRented_example js_times_tenth
      formatTimeTo12Hour_10_00 [unfolded env1_def] split0_def booking_c3_def
      Booking_insert_def createInvoice_def Car_save_def invoiceUrl_def)

text \<open>The start time \<open>10\<close>: the dates parse, and \<open>formatTimeTo12Hour\<close> throws.\<close>

lemma bookCar_example_hour:
  "bookCar env1 store1 request_hour =
     (store1, 500, Message ''Server error. Please try again later.'')"
  by (simp add: bookCar_def bookCar_create_def Let_def env1_def store1_def
      request_hour_def request1_def request0_def truthy_def str_def Car_findById_def car1_def
      car2_def findOne_example parse1_def date_lt_def formatTimeTo12Hour_def)

subsection \<open>updateBooking and extendBooking: the start-time guard\<close>

lemma updateBooking_fields_sel:
  "rentalStartDate (updateBooking_fields req b) = override (body_rentalStartDate req) (rentalStartDate b)"
  "rentalStartTime (updateBooking_fields req b) = override (body_rentalStartTime req) (rentalStartTime b)"
  "rentalEndDate (updateBooking_fields req b) = override (body_rentalEndDate req) (rentalEndDate b)"
  "rentalEndTime (updateBooking_fields req b) = override (body_rentalEndTime req) (rentalEndTime b)"
  by (simp_all add: updateBooking_fields_def)

lemma update_extend_after_start:
  assumes found: "Booking_findById (params_bookingId req) (bookings S) = Some b"
    and start: "parseDate E (rentalStartDate b @ ''T'' @ rentalStartTime b) = Some s"
    and past: "s \<le> now E"
    and mono: "\<And>t u. t \<le> u \<Longrightarrow> date_le (toKarachi E t) (toKarachi E u)"
  shows "updateBooking E S req =
           (S, 400, Message ''You can only update the booking before the rental start time.'')
       \<and> extendBooking E S req =
           (S, 400, Message ''You can only extend the booking before the rental start time.'')"
proof -
  have "date_ge (localTime E (Some (now E))) (localTime E (Some s))"
    using mono [OF past] by (simp add: date_ge_def localTime_def)
  then have u: "updateBooking E S req =
           (S, 400, Message ''You can only update the booking before the rental start time.'')"
    using found start by (simp add: updateBooking_def Let_def)
  have "date_le (Some s) (Some (now E))"
    using past by (simp add: date_le_def)
  then have "extendBooking E S req =
           (S, 400, Message ''You can only extend the booking before the rental start time.'')"
    using found start by (simp add: extendBooking_def Let_def)
  with u show ?thesis by simp
qed

lemma date_le_None: "\<not> date_le None d" "\<not> date_le d None"
  by (simp_all add: date_le_def split: option.splits)

lemma update_extend_invalid_start:
  assumes found: "Booking_findById (params_bookingId req) (bookings S) = Some b"
    and start: "parseDate E (rentalStartDate b @ ''T'' @ rentalStartTime b) = None"
  shows "updateBooking E S req \<noteq>
           (S, 400, Message ''You can only update the booking before the rental start time.'')"
    and "extendBooking E S req \<noteq>
           (S, 400, Message ''You can only extend the booking before the rental start time.'')"
  using found start
  by (auto simp add: updateBooking_def extendBooking_def Let_def localTime_def date_ge_def
      date_le_None updateBooking_save_def extendBooking_save_def createInvoice_def
      split: option.splits if_splits)

text \<open>The times \<open>bookCar\<close> stores have a space before \<open>AM\<close> or \<open>PM\<close>. On an engine that
  reads only the ISO form after an ISO date and \<open>T\<close>, as V8 does, the start built from a
  booking that \<open>bookCar\<close> stored is Invalid Date, and the guards of \<open>updateBooking\<close> and
  \<open>extendBooking\<close> never answer for it, whatever the clock.\<close>

lemma formatTimeTo12Hour_space:
  assumes "formatTimeTo12Hour E' t = Inr r"
  shows "CHR '' '' \<in> set r"
  using assms
  by (auto simp add: formatTimeTo12Hour_def Let_def split: list.splits option.splits if_splits)

lemma stored_start_unparsed:
  assumes eng: "\<And>d t. is_iso_date d \<Longrightarrow> CHR '' '' \<in> set t \<Longrightarrow> parseDate E (d @ ''T'' @ t) = None"
    and date: "is_iso_date (rentalStartDate b)"
    and time: "formatTimeTo12Hour E' t = Inr (rentalStartTime b)"
  shows "parseDate E (rentalStartDate b @ ''T'' @ rentalStartTime b) = None"
  by (rule eng [OF date formatTimeTo12Hour_space [OF time]])

lemma guard_skipped_on_stored_times:
  assumes eng: "\<And>d t. is_iso_date d \<Longrightarrow> CHR '' '' \<in> set t \<Longrightarrow> parseDate E (d @ ''T'' @ t) = None"
    and found: "Booking_findById (params_bookingId req) (bookings S) = Some b"
    and date: "is_iso_date (rentalStartDate b)"
    and time: "formatTimeTo12Hour E' t = Inr (rentalStartTime b)"
  shows "updateBooking E S req \<noteq>
           (S, 400, Message ''You can only update the booking before the rental start time.'')"
    and "extendBooking E S req \<noteq>
           (S, 400, Message ''You can only extend the booking before the rental start time.'')"
  using update_extend_invalid_start [OF found stored_start_unparsed [OF eng date time]]
  by simp_all

lemma updateBooking_same_start_rejected:
  assumes found: "Booking_findById (params_bookingId req) (bookings S) = Some b"
    and nodate: "\<not> truthy (body_rentalStartDate req)"
    and notime: "\<not> truthy (body_rentalStartTime req)"
    and start: "localTime E (parseDate E (rentalStartDate b @ ''T'' @ rentalStartTime b)) = Some ls"
    and before: "\<not> date_ge (localTime E (Some (now E))) (Some ls)"
  shows "updateBooking E S req =
           (S, 400,
            Message (if date_le (localTime E (parseDate E
                          (override (body_rentalEndDate req) (rentalEndDate b) @ ''T''
                           @ override (body_rentalEndTime req) (rentalEndTime b)))) (Some ls)
                     then ''Rental end time must be after the rental start time.''
                     else ''New rental start time must be after the previous rental start time.''))"
proof -
  have same: "override (body_rentalStartDate req) (rentalStartDate b) = rentalStartDate b"
      "override (body_rentalStartTime req) (rentalStartTime b) = rentalStartTime b"
    using nodate notime by (simp_all add: override_def)
  have le: "date_le (Some ls) (Some ls)"
    by (simp add: date_le_def)
  show ?thesis
    using found before le start
    by (simp add: updateBooking_def Let_def updateBooking_fields_sel same)
qed

lemma updateBooking_same_start_invalid:
  assumes found: "Booking_findById (params_bookingId req) (bookings S) = Some b"
    and nodate: "\<not> truthy (body_rentalStartDate req)"
    and notime: "\<not> truthy (body_rentalStartTime req)"
    and start: "parseDate E (rentalStartDate b @ ''T'' @ rentalStartTime b) = None"
  shows "updateBooking E S req =
           (S, case populate b S of
                 None \<Rightarrow> (404, Message ''Car not found'')
               | Some c \<Rightarrow> (500, MessageError ''Error updating booking'' ValidationError))"
proof -
  have same: "override (body_rentalStartDate req) (rentalStartDate b) = rentalStartDate b"
      "override (body_rentalStartTime req) (rentalStartTime b) = rentalStartTime b"
    using nodate notime by (simp_all add: override_def)
  show ?thesis
    using found start
    by (simp add: updateBooking_def Let_def updateBooking_fields_sel same localTime_def
        date_ge_def date_le_None updateBooking_overlap_none updateBooking_save_def daysRented_date_def
        split: option.splits)
qed

subsection \<open>Examples\<close>

lemma updateBooking_example_overlapping:
  "updateBooking env1 store3 request_move =
     (store3\<lparr>bookings :=
        [booking1\<lparr>rentalStartDate := ''2030-06-03'', rentalEndDate := ''2030-06-05''\<rparr>,
         booking3]\<rparr>,
      200,
      MessageBooking ''Booking updated successfully''
        (booking1\<lparr>rentalStartDate := ''2030-06-03'', rentalEndDate := ''2030-06-05''\<rparr>))"
  by (simp add: updateBooking_def Let_def env1_def store3_def store1_def request_move_def
      request0_def Booking_findById_def booking1_def booking3_def localTime_def parse1_def
      date_ge_def date_le_def updateBooking_fields_def override_def truthy_def str_def
      updateBooking_overlap_none populate_def Car_findById_def car1_def car2_def
      updateBooking_save_def daysRented_date_def daysRented_def rentalDuration_def
      js_times_example Booking_save_def)

lemma request1_facts:
  "truthy (body_carId request1)" "truthy (body_showroomId request1)"
  "truthy (body_rentalStartDate request1)" "truthy (body_rentalStartTime request1)"
  "truthy (body_rentalEndDate request1)" "truthy (body_rentalEndTime request1)"
  "Car_findById (str (body_carId request1)) (cars store1) = Some car2"
  "availability car2 = ''Available''"
  "parseDate env1 (str (body_rentalStartDate request1) @ ''T''
     @ str (body_rentalStartTime request1) @ '':00+05:00'') = Some 1906520400000"
  "parseDate env1 (str (body_rentalEndDate request1) @ ''T''
     @ str (body_rentalEndTime request1) @ '':00+05:00'') = Some 1906693200000"
  "now env1 \<le> 1906520400000"
  "CHR '':'' \<in> set (str (body_rentalStartTime request1))"
  "CHR '':'' \<in> set (str (body_rentalEndTime request1))"
  by (simp_all add: request1_def request0_def truthy_def str_def store1_def Car_findById_def
      car1_def car2_def env1_def parse1_def)

lemma store1_free:
  "\<forall>b \<in> set (bookings store1). carId b = str (body_carId request1) \<longrightarrow>
      (rentalStartDate b < str (body_rentalStartDate request1)
       \<and> rentalEndDate b < str (body_rentalStartDate request1))
      \<or> (str (body_rentalEndDate request1) < rentalStartDate b
         \<and> str (body_rentalEndDate request1) < rentalEndDate b)"
  by (simp add: store1_def booking0_def booking1_def request1_def request0_def str_def)

lemma bookCar_example_unavailable:
  "bookCar env1 store1 request_c1 = (store1, 400, Message ''Car is not available for booking.'')"
  by (simp add: bookCar_def request_c1_def request1_def request0_def truthy_def str_def
      store1_def Car_findById_def car1_def)

text \<open>A booking as \<open>bookCar\<close> stores it has its times in the 12-hour form; the string
  \<open>updateBooking\<close> and \<open>extendBooking\<close> build from it is not a date to the example engine.\<close>

lemma parse1_iso_only:
  assumes "CHR '' '' \<in> set t"
  shows "parseDate env1 (d @ ''T'' @ t) = None"
proof -
  have "CHR '' '' \<in> set (d @ ''T'' @ t)"
    using assms by simp
  then have "d @ ''T'' @ t \<noteq> s" if "CHR '' '' \<notin> set s" for s
    using that by metis
  then show ?thesis
    unfolding env1_def parse1_def by simp
qed

lemma booking2_start_unparsed:
  "parseDate env2 (rentalStartDate booking2 @ ''T'' @ rentalStartTime booking2) = None"
  "parseDate env1 (rentalStartDate booking2 @ ''T'' @ rentalStartTime booking2) = None"
  "parseDate env2 ''2030-06-01T10:00:00+05:00'' = Some 1906520400000"
  "parseDate env1 ''2030-06-01T10:00:00+05:00'' = Some 1906520400000"
  "Booking_findById ''b2'' (bookings store2) = Some booking2"
  by (simp_all add: env2_def env1_def parse1_def booking2_def store2_def Booking_findById_def
      booking0_def booking1_def)

lemma updateBooking_example_12hour:
  "updateBooking env2 store2 (request_move\<lparr>params_bookingId := ''b2''\<rparr>) =
       (store2\<lparr>bookings :=
          [booking0, booking1,
           booking2\<lparr>rentalStartDate := ''2030-06-03'', rentalStartTime := ''10:00'',
             rentalEndDate := ''2030-06-05'', rentalEndTime := ''10:00''\<rparr>]\<rparr>,
        200,
        MessageBooking ''Booking updated successfully''
          (booking2\<lparr>rentalStartDate := ''2030-06-03'', rentalStartTime := ''10:00'',
             rentalEndDate := ''2030-06-05'', rentalEndTime := ''10:00''\<rparr>))"
  by (simp add: updateBooking_def Let_def env2_def env1_def store2_def
      request_move_def request0_def Booking_findById_def
      booking0_def booking1_def booking2_def localTime_def parse1_def
      date_ge_def date_le_def updateBooking_fields_def override_def truthy_def str_def
      updateBooking_overlap_none populate_def Car_findById_def car1_def car2_def
      updateBooking_save_def daysRented_date_def daysRented_def
      rentalDuration_def js_times_example Booking_save_def)

lemma extendBooking_overlap_example:
  "findOne (extendBooking_overlap (Str ''c2'') ''b2'' ''2030-06-01'' ''2030-06-05'')
     [booking0, booking1, booking2] = None"
  by (simp add: findOne_def matches_def extendBooking_overlap_def holds_field_def
      booking_doc_def booking0_def booking1_def booking2_def)

lemma extendBooking_example_12hour:
  "extendBooking env2 store2 (request_extend\<lparr>params_bookingId := ''b2''\<rparr>) =
       (store2, 400, Message ''Failed to calculate total price.'')"
  by (simp add: extendBooking_def Let_def env2_def env1_def store2_def
      request_extend_def request0_def Booking_findById_def
      booking0_def booking1_def booking2_def parse1_def
      date_le_def override_def truthy_def str_def
      populate_def Car_findById_def car1_def car2_def populated_id_def
      extendBooking_save_def daysRented_date_def is_HH_MM_def is_digit_def
      extendBooking_overlap_example [unfolded booking0_def booking1_def booking2_def])

lemma updateBooking_example_end_only:
  "updateBooking env1 store2 (request_end\<lparr>params_bookingId := ''b2''\<rparr>) =
       (store2, 500, MessageError ''Error updating booking'' ValidationError)"
  by (simp add: updateBooking_def Let_def env1_def store2_def
      request_end_def request0_def Booking_findById_def
      booking0_def booking1_def booking2_def localTime_def parse1_def
      date_ge_def date_le_def updateBooking_fields_def override_def truthy_def str_def
      updateBooking_overlap_none populate_def Car_findById_def car1_def car2_def
      updateBooking_save_def daysRented_date_def)

text \<open>The booking of the first car has its times in the form \<open>HH:mm\<close>: once it has
  started it is neither updated nor extended, and before that an update of its end alone
  is refused.\<close>

lemma update_extend_example_started:
  "updateBooking env2 store1 request_end =
     (store1, 400, Message ''You can only update the booking before the rental start time.'')"
  "extendBooking env2 store1 request_extend =
     (store1, 400, Message ''You can only extend the booking before the rental start time.'')"
  by (simp_all add: updateBooking_def extendBooking_def Let_def env2_def env1_def store1_def
      request_end_def request_extend_def request0_def Booking_findById_def booking0_def
      booking1_def localTime_def parse1_def date_ge_def date_le_def)

lemma updateBooking_example_end_refused:
  "updateBooking env1 store1 request_end =
     (store1, 400,
      Message ''New rental start time must be after the previous rental start time.'')"
  by (simp add: updateBooking_def Let_def env1_def store1_def request_end_def request0_def
      Booking_findById_def booking0_def booking1_def localTime_def parse1_def date_ge_def
      date_le_def updateBooking_fields_def override_def truthy_def str_def)

text \<open>A stored pair whose end is before its start: the second clause of the \<open>$or\<close>
  selects it for new dates that the single comparison of start and end rejects.\<close>

lemma bookCar_or_reversed_pair:
  "matches_filter (booking_doc (booking1\<lparr>rentalStartDate := ''2030-06-10''\<rparr>))
     (bookCar_or ''2030-06-05'' ''2030-06-20'')"
  "\<not> (rentalStartDate (booking1\<lparr>rentalStartDate := ''2030-06-10''\<rparr>) \<le> ''2030-06-20''
      \<and> ''2030-06-05'' \<le> rentalEndDate (booking1\<lparr>rentalStartDate := ''2030-06-10''\<rparr>))"
  by (simp_all add: bookCar_or_clauses booking1_def)

section \<open>The claims\<close>

text \<open>
  C1. In \<open>bookCar\<close>, the \<open>$or\<close> of the three clauses of the overlap filter selects, among
  the stored bookings whose interval \<open>[rentalStartDate, rentalEndDate]\<close> has its start no
  later than its end, exactly those with \<open>rentalStartDate \<le> new end\<close> and
  \<open>rentalEndDate \<ge> new start\<close>, whatever the new pair of dates; the whole filter adds
  the equality of \<open>carId\<close>.
\<close>

theorem bookCar_overlap_single_predicate:
  assumes "rentalStartDate b \<le> rentalEndDate b"
  shows "(matches_filter (booking_doc b) (bookCar_or rsd red)
           \<longleftrightarrow> rentalStartDate b \<le> red \<and> rentalEndDate b \<ge> rsd)
       \<and> (matches (booking_doc b) (bookCar_overlap cid rsd red)
           \<longleftrightarrow> carId b = cid \<and> rentalStartDate b \<le> red \<and> rentalEndDate b \<ge> rsd)"
proof -
  have "matches_filter (booking_doc b) (bookCar_or rsd red)
           \<longleftrightarrow> rentalStartDate b \<le> red \<and> rentalEndDate b \<ge> rsd"
    unfolding bookCar_or_clauses using assms by (meson order_trans)
  then show ?thesis by (simp add: bookCar_overlap_carId)
qed

theorem bookCar_overlap_single_predicate_witness:
  "rentalStartDate booking1 \<le> rentalEndDate booking1
   \<and> matches_filter (booking_doc booking1) (bookCar_or ''2030-06-02'' ''2030-06-04'')
   \<and> matches (booking_doc booking1) (bookCar_overlap ''c1'' ''2030-06-02'' ''2030-06-04'')
   \<and> \<not> matches (booking_doc booking1) (bookCar_overlap ''c1'' ''2030-06-04'' ''2030-06-05'')"
  using bookCar_overlap_single_predicate [of booking1 "''2030-06-02''" "''2030-06-04''" "''c1''"]
        bookCar_overlap_single_predicate [of booking1 "''2030-06-04''" "''2030-06-05''" "''c1''"]
  by (simp add: booking1_def)

text \<open>
  C2. The overlap filter of \<open>updateBooking\<close> compares the fields \<open>rentalStart\<close> and
  \<open>rentalEnd\<close>, which no stored booking has: whatever the collection, the car, the dates and
  the booking excluded, it selects no booking, and \<open>updateBooking\<close> never answers with the
  overlapping-dates conflict.
\<close>

theorem updateBooking_overlap_never_matches:
  "findOne (updateBooking_overlap cid bid ue us) bs = None
   \<and> snd (updateBooking E S req)
        \<noteq> (400, Message ''The car is already booked for the selected dates.'')"
proof -
  have "snd (updateBooking E S req)
        \<noteq> (400, Message ''The car is already booked for the selected dates.'')"
    by (simp add: updateBooking_def Let_def updateBooking_overlap_none updateBooking_save_def
        split: option.splits)
  then show ?thesis by (simp add: updateBooking_overlap_none)
qed

theorem updateBooking_overlap_never_matches_witness:
  "findOne (updateBooking_overlap (Str ''c1'') ''b1'' (Some 1906902000000) (Some 1906729200000))
       (bookings store3) = None
   \<and> matches (booking_doc booking3) (bookCar_overlap ''c1'' ''2030-06-03'' ''2030-06-05'')
   \<and> snd (updateBooking env1 store3 request_move)
        = (200, MessageBooking ''Booking updated successfully''
            (booking1\<lparr>rentalStartDate := ''2030-06-03'', rentalEndDate := ''2030-06-05''\<rparr>))"
  using updateBooking_overlap_never_matches
          [of "Str ''c1''" "''b1''" "Some 1906902000000" "Some 1906729200000" "bookings store3"
              env1 store3 request_move]
  by (simp add: updateBooking_example_overlapping bookCar_overlap_carId bookCar_or_clauses
      booking3_def)

text \<open>
  C3. \<open>daysRented\<close> is the ceiling of the difference of the two parsed dates in days, plus
  one, and at least 0; it is 1 when end and start are the same instant, and 3 when the end
  is two days after the start at the same time of day.
\<close>

theorem daysRented_inclusive:
  "daysRented e s = max 0 (\<lceil>real_of_int (e - s) / 86400000\<rceil> + 1)
   \<and> daysRented e s = max 0 (- ((s - e) div 86400000) + 1)
   \<and> daysRented s s = 1
   \<and> daysRented (s + 2 * 86400000) s = 3"
  unfolding daysRented_def rentalDuration_ceiling ceiling_days_div by simp

text \<open>
  C4. When \<open>bookCar\<close> answers 201, the booking it returns is the one it appended to the
  collection, the count of days is at least one (the ceiling of the difference of the two
  parsed dates in days, plus one), and its \<open>totalPrice\<close> is the product of line 91,
  \<open>daysRented\<close> times the \<open>rentRate\<close> of the car, rounded to the nearest double. It is the
  product itself when the rate is an integer and the product is below \<open>2^53\<close> in size.
\<close>

theorem bookCar_totalPrice:
  assumes "bookCar E S req = (S', 201, body)"
  shows "\<exists>c s e b.
      Car_findById (str (body_carId req)) (cars S) = Some c
    \<and> parseDate E (str (body_rentalStartDate req) @ ''T'' @ str (body_rentalStartTime req)
                   @ '':00+05:00'') = Some s
    \<and> parseDate E (str (body_rentalEndDate req) @ ''T'' @ str (body_rentalEndTime req)
                   @ '':00+05:00'') = Some e
    \<and> body = MessageBookingInvoice ''Car booked successfully'' b
         (req_protocol req @ ''://'' @ req_host req @ ''/api/bookcar/invoices/invoice_''
          @ booking_id b @ ''.pdf'')
    \<and> bookings S' = bookings S @ [b]
    \<and> 1 \<le> daysRented e s
    \<and> daysRented e s = \<lceil>real_of_int (e - s) / 86400000\<rceil> + 1
    \<and> js_times (daysRented e s) (rentRate c) = Some (totalPrice b)
    \<and> (\<forall>x. rentRate c = Finite x
          \<longrightarrow> totalPrice b = round_double (of_int (daysRented e s) * x))
    \<and> (\<forall>n. rentRate c = Finite (of_int n) \<and> \<bar>daysRented e s * n\<bar> < 2 ^ 53
          \<longrightarrow> totalPrice b = Finite (of_int (daysRented e s * n)))"
proof -
  let ?ds = "parseDate E (str (body_rentalStartDate req) @ ''T'' @ str (body_rentalStartTime req)
                   @ '':00+05:00'')"
  let ?de = "parseDate E (str (body_rentalEndDate req) @ ''T'' @ str (body_rentalEndTime req)
                   @ '':00+05:00'')"
  from assms obtain c where c: "Car_findById (str (body_carId req)) (cars S) = Some c"
    and ord: "\<not> date_lt ?de ?ds"
    and cr: "bookCar_create E S req c ?ds ?de = Inr (S', 201, body)"
    using bookCar_catch_status
    by (auto simp add: bookCar_def Let_def split: if_splits option.splits sum.splits)
       (metis fst_conv)
  from bookCar_create_Inr [OF cr] obtain s e b where s: "?ds = Some s" and e: "?de = Some e"
    and body: "body = MessageBookingInvoice ''Car booked successfully'' b
         (req_protocol req @ ''://'' @ req_host req @ ''/api/bookcar/invoices/invoice_''
          @ booking_id b @ ''.pdf'')"
    and app: "bookings S' = bookings S @ [b]"
    and price: "js_times (daysRented e s) (rentRate c) = Some (totalPrice b)"
    by blast
  from ord s e have "s \<le> e"
    by (simp add: date_lt_def)
  then have days: "1 \<le> daysRented e s"
    by (rule daysRented_pos)
  then have count: "daysRented e s = \<lceil>real_of_int (e - s) / 86400000\<rceil> + 1"
    unfolding daysRented_def rentalDuration_ceiling by simp
  have rounded: "totalPrice b = round_double (of_int (daysRented e s) * x)"
    if "rentRate c = Finite x" for x
    using price that by (simp add: js_times_Finite)
  have exact: "totalPrice b = Finite (of_int (daysRented e s * n))"
    if "rentRate c = Finite (of_int n)" and "\<bar>daysRented e s * n\<bar> < 2 ^ 53" for n
    using price that(1) js_times_int [OF that(2)] by simp
  from c s e body app days count price rounded exact show ?thesis
    by blast
qed

theorem bookCar_totalPrice_witness:
  "bookCar env1 store1 request1 =
     (store2, 201,
      MessageBookingInvoice ''Car booked successfully'' booking2
        ''https://swiftride.example/api/bookcar/invoices/invoice_b2.pdf'')
   \<and> Car_findById (str (body_carId request1)) (cars store1) = Some car2
   \<and> rentRate car2 = Finite (of_int 100)
   \<and> daysRented 1906693200000 1906520400000 = 3
   \<and> js_times 3 (rentRate car2) = Some (totalPrice booking2)
   \<and> totalPrice booking2 = Finite (of_int (3 * 100))"
proof -
  from bookCar_totalPrice [OF bookCar_example] obtain c s e b
    where c: "Car_findById (str (body_carId request1)) (cars store1) = Some c"
      and s: "parseDate env1 (str (body_rentalStartDate request1) @ ''T''
                @ str (body_rentalStartTime request1) @ '':00+05:00'') = Some s"
      and e: "parseDate env1 (str (body_rentalEndDate request1) @ ''T''
                @ str (body_rentalEndTime request1) @ '':00+05:00'') = Some e"
      and b: "MessageBookingInvoice ''Car booked successfully'' booking2
                ''https://swiftride.example/api/bookcar/invoices/invoice_b2.pdf''
              = MessageBookingInvoice ''Car booked successfully'' b
                  (req_protocol request1 @ ''://'' @ req_host request1
                   @ ''/api/bookcar/invoices/invoice_'' @ booking_id b @ ''.pdf'')"
      and price: "js_times (daysRented e s) (rentRate c) = Some (totalPrice b)"
      and exact: "\<forall>n. rentRate c = Finite (of_int n) \<and> \<bar>daysRented e s * n\<bar> < 2 ^ 53
          \<longrightarrow> totalPrice b = Finite (of_int (daysRented e s * n))"
    by blast
  from c have c2: "c = car2"
    by (simp add: request1_facts)
  from s e have se: "s = 1906520400000" "e = 1906693200000"
    using request1_facts(9,10) by simp_all
  from b have b2: "b = booking2"
    by simp
  have rate: "rentRate car2 = Finite (of_int 100)"
    by (simp add: car2_def)
  have "\<bar>daysRented 1906693200000 1906520400000 * 100\<bar> < 2 ^ 53"
    by (simp add: daysRented_example)
  with exact rate have "totalPrice booking2 = Finite (of_int (3 * 100))"
    unfolding c2 se b2 by (simp add: daysRented_example)
  moreover from price have "js_times 3 (rentRate car2) = Some (totalPrice booking2)"
    unfolding c2 se b2 by (simp add: daysRented_example)
  ultimately show ?thesis
    using bookCar_example request1_facts(7) rate daysRented_example by simp
qed

text \<open>At a tenth a day, as a double, three days cost \<open>0.30000000000000004\<close>, which is not
  three times the rate.\<close>

theorem bookCar_totalPrice_rounded:
  "bookCar env1 store_c3 request_c3 =
     (\<lparr>bookings = [booking_c3],
       cars = [car3\<lparr>availability := ''Rented Out''\<rparr>],
       invoices =
         [\<lparr>inv_id = ''b2'', inv_carId = ''c3'', inv_userId = ''u2'',
           inv_rentalStartDate = ''2030-06-01'', inv_rentalEndDate = ''2030-06-03'',
           inv_rentalStartTime = ''10:00 AM'', inv_rentalEndTime = ''10:00 AM'',
           inv_totalPrice = Finite (5404319552844596 / 18014398509481984)\<rparr>],
       emitted = []\<rparr>, 201,
      MessageBookingInvoice ''Car booked successfully'' booking_c3
        ''https://swiftride.example/api/bookcar/invoices/invoice_b2.pdf'')
   \<and> Car_findById (str (body_carId request_c3)) (cars store_c3) = Some car3
   \<and> rentRate car3 = Finite (3602879701896397 / 36028797018963968)
   \<and> parseDate env1 (str (body_rentalStartDate request_c3) @ ''T''
        @ str (body_rentalStartTime request_c3) @ '':00+05:00'') = Some 1906520400000
   \<and> parseDate env1 (str (body_rentalEndDate request_c3) @ ''T''
        @ str (body_rentalEndTime request_c3) @ '':00+05:00'') = Some 1906693200000
   \<and> daysRented 1906693200000 1906520400000 = 3
   \<and> totalPrice booking_c3 = Finite (5404319552844596 / 18014398509481984)
   \<and> totalPrice booking_c3 \<noteq> Finite (3 * (3602879701896397 / 36028797018963968))"
proof -
  have "Car_findById (str (body_carId request_c3)) (cars store_c3) = Some car3"
    by (simp add: request_c3_def request1_def request0_def str_def store_c3_def
        Car_findById_def car3_def)
  moreover have "rentRate car3 = Finite (3602879701896397 / 36028797018963968)"
    by (simp add: car3_def)
  moreover have "parseDate env1 (str (body_rentalStartDate request_c3) @ ''T''
        @ str (body_rentalStartTime request_c3) @ '':00+05:00'') = Some 1906520400000"
      "parseDate env1 (str (body_rentalEndDate request_c3) @ ''T''
        @ str (body_rentalEndTime request_c3) @ '':00+05:00'') = Some 1906693200000"
    by (simp_all add: request_c3_def request1_def request0_def str_def env1_def parse1_def)
  moreover have "totalPrice booking_c3 = Finite (5404319552844596 / 18014398509481984)"
      "totalPrice booking_c3 \<noteq> Finite (3 * (3602879701896397 / 36028797018963968))"
    by (simp_all add: booking_c3_def)
  ultimately show ?thesis
    using bookCar_example_tenth daysRented_example by simp
qed

text \<open>
  C5. A request with all six fields, for a car that exists and is \<open>Available\<close>, whose
  bookings all lie, start and end, before the new start date or after the new end date
  (dates compare as the database compares the stored strings), with start and end that
  parse, a start not before the clock, an end not before the start and times with a
  colon: \<open>bookCar\<close> answers 201 with the new booking and the URL of its invoice,
  \<open>{protocol}://{host}/api/bookcar/invoices/invoice_{id}.pdf\<close>, appends the booking to the
  collection, asks for its invoice, and leaves the car \<open>Rented Out\<close>.
\<close>

theorem bookCar_succeeds:
  assumes fields: "truthy (body_carId req)" "truthy (body_showroomId req)"
      "truthy (body_rentalStartDate req)" "truthy (body_rentalStartTime req)"
      "truthy (body_rentalEndDate req)" "truthy (body_rentalEndTime req)"
    and car: "Car_findById (str (body_carId req)) (cars S) = Some c"
    and avail: "availability c = ''Available''"
    and free: "\<forall>b \<in> set (bookings S). carId b = str (body_carId req) \<longrightarrow>
                 (rentalStartDate b < str (body_rentalStartDate req)
                  \<and> rentalEndDate b < str (body_rentalStartDate req))
                 \<or> (str (body_rentalEndDate req) < rentalStartDate b
                    \<and> str (body_rentalEndDate req) < rentalEndDate b)"
    and start: "parseDate E (str (body_rentalStartDate req) @ ''T''
                  @ str (body_rentalStartTime req) @ '':00+05:00'') = Some s"
    and fin: "parseDate E (str (body_rentalEndDate req) @ ''T''
                  @ str (body_rentalEndTime req) @ '':00+05:00'') = Some e"
    and future: "now E \<le> s"
    and order: "s \<le> e"
    and colon: "CHR '':'' \<in> set (str (body_rentalStartTime req))"
      "CHR '':'' \<in> set (str (body_rentalEndTime req))"
  shows "\<exists>b. bookCar E S req =
            (S\<lparr>bookings := bookings S @ [b],
               invoices := invoices S @
                 [\<lparr>inv_id = newId E, inv_carId = carId b, inv_userId = userId b,
                   inv_rentalStartDate = rentalStartDate b, inv_rentalEndDate = rentalEndDate b,
                   inv_rentalStartTime = rentalStartTime b, inv_rentalEndTime = rentalEndTime b,
                   inv_totalPrice = totalPrice b\<rparr>],
               cars := Car_save (c\<lparr>availability := ''Rented Out''\<rparr>) (cars S)\<rparr>,
             201,
             MessageBookingInvoice ''Car booked successfully'' b
               (req_protocol req @ ''://'' @ req_host req @ ''/api/bookcar/invoices/invoice_''
                @ newId E @ ''.pdf''))
         \<and> Car_findById (str (body_carId req)) (cars (fst (bookCar E S req)))
             = Some (c\<lparr>availability := ''Rented Out''\<rparr>)
         \<and> booking_id b = newId E
         \<and> carId b = str (body_carId req)
         \<and> userId b = req_user req
         \<and> showroomId b = str (body_showroomId req)
         \<and> rentalStartDate b = split0 CHR ''T'' (toISOString E s)
         \<and> rentalEndDate b = split0 CHR ''T'' (toISOString E e)
         \<and> formatTimeTo12Hour E (str (body_rentalStartTime req)) = Inr (rentalStartTime b)
         \<and> formatTimeTo12Hour E (str (body_rentalEndTime req)) = Inr (rentalEndTime b)
         \<and> js_times (daysRented e s) (rentRate c) = Some (totalPrice b)"
proof -
  from formatTimeTo12Hour_colon [OF colon(1)] obtain fs
    where fs: "formatTimeTo12Hour E (str (body_rentalStartTime req)) = Inr fs" by blast
  from formatTimeTo12Hour_colon [OF colon(2)] obtain fe
    where fe: "formatTimeTo12Hour E (str (body_rentalEndTime req)) = Inr fe" by blast
  from js_times_pos [OF daysRented_pos [OF order]] obtain price
    where price: "js_times (daysRented e s) (rentRate c) = Some price" by blast
  have none: "findOne (bookCar_overlap (str (body_carId req)) (str (body_rentalStartDate req))
                 (str (body_rentalEndDate req))) (bookings S) = None"
    by (rule bookCar_overlap_none [OF free])
  have cid: "car_id (c\<lparr>availability := ''Rented Out''\<rparr>) = str (body_carId req)"
    using Car_findById_id [OF car] by simp
  note saved = Car_findById_save [OF car cid]
  let ?b = "\<lparr>booking_id = newId E, carId = str (body_carId req), userId = req_user req,
             showroomId = str (body_showroomId req),
             rentalStartDate = split0 CHR ''T'' (toISOString E s), rentalStartTime = fs,
             rentalEndDate = split0 CHR ''T'' (toISOString E e), rentalEndTime = fe,
             totalPrice = price\<rparr>"
  have run: "bookCar E S req =
            (S\<lparr>bookings := bookings S @ [?b],
               invoices := invoices S @
                 [\<lparr>inv_id = newId E, inv_carId = carId ?b, inv_userId = userId ?b,
                   inv_rentalStartDate = rentalStartDate ?b, inv_rentalEndDate = rentalEndDate ?b,
                   inv_rentalStartTime = rentalStartTime ?b, inv_rentalEndTime = rentalEndTime ?b,
                   inv_totalPrice = totalPrice ?b\<rparr>],
               cars := Car_save (c\<lparr>availability := ''Rented Out''\<rparr>) (cars S)\<rparr>,
             201,
             MessageBookingInvoice ''Car booked successfully'' ?b
               (req_protocol req @ ''://'' @ req_host req @ ''/api/bookcar/invoices/invoice_''
                @ newId E @ ''.pdf''))"
    using fields car avail none start fin future order fs fe price
    by (simp add: bookCar_def bookCar_create_def Let_def date_lt_def Booking_insert_def
        createInvoice_def invoiceUrl_def)
  have "Car_findById (str (body_carId req)) (cars (fst (bookCar E S req)))
             = Some (c\<lparr>availability := ''Rented Out''\<rparr>)"
    unfolding run using saved by simp
  with run fs fe price show ?thesis
    by (intro exI [of _ ?b]) simp
qed

theorem bookCar_succeeds_witness:
  "\<exists>b. bookCar env1 store1 request1 =
          (store1\<lparr>bookings := bookings store1 @ [b],
             invoices := invoices store1 @
               [\<lparr>inv_id = newId env1, inv_carId = carId b, inv_userId = userId b,
                 inv_rentalStartDate = rentalStartDate b, inv_rentalEndDate = rentalEndDate b,
                 inv_rentalStartTime = rentalStartTime b, inv_rentalEndTime = rentalEndTime b,
                 inv_totalPrice = totalPrice b\<rparr>],
             cars := Car_save (car2\<lparr>availability := ''Rented Out''\<rparr>) (cars store1)\<rparr>,
           201,
           MessageBookingInvoice ''Car booked successfully'' b
             ''https://swiftride.example/api/bookcar/invoices/invoice_b2.pdf'')
       \<and> Car_findById ''c2'' (cars (fst (bookCar env1 store1 request1)))
           = Some (car2\<lparr>availability := ''Rented Out''\<rparr>)
       \<and> b = booking2"
proof -
  have order: "(1906520400000::int) \<le> 1906693200000" by simp
  from bookCar_succeeds [OF request1_facts(1-8) store1_free request1_facts(9-11) order
      request1_facts(12-13)]
  obtain b where run: "bookCar env1 store1 request1 =
          (store1\<lparr>bookings := bookings store1 @ [b],
             invoices := invoices store1 @
               [\<lparr>inv_id = newId env1, inv_carId = carId b, inv_userId = userId b,
                 inv_rentalStartDate = rentalStartDate b, inv_rentalEndDate = rentalEndDate b,
                 inv_rentalStartTime = rentalStartTime b, inv_rentalEndTime = rentalEndTime b,
                 inv_totalPrice = totalPrice b\<rparr>],
             cars := Car_save (car2\<lparr>availability := ''Rented Out''\<rparr>) (cars store1)\<rparr>,
           201,
           MessageBookingInvoice ''Car booked successfully'' b
             (req_protocol request1 @ ''://'' @ req_host request1
              @ ''/api/bookcar/invoices/invoice_'' @ newId env1 @ ''.pdf''))"
    and saved: "Car_findById (str (body_carId request1)) (cars (fst (bookCar env1 store1 request1)))
           = Some (car2\<lparr>availability := ''Rented Out''\<rparr>)"
    by blast
  from run have b2: "b = booking2"
    unfolding bookCar_example by simp
  have url: "req_protocol request1 @ ''://'' @ req_host request1
              @ ''/api/bookcar/invoices/invoice_'' @ newId env1 @ ''.pdf''
           = ''https://swiftride.example/api/bookcar/invoices/invoice_b2.pdf''"
    by (simp add: request1_def request0_def env1_def)
  from saved have "Car_findById ''c2'' (cars (fst (bookCar env1 store1 request1)))
           = Some (car2\<lparr>availability := ''Rented Out''\<rparr>)"
    by (simp add: request1_def request0_def str_def)
  with run [unfolded url] b2 show ?thesis by blast
qed

text \<open>The start time \<open>10\<close> has no colon. The six fields are there, the car is
  \<open>Available\<close>, its one booking ends in May, the start and the end parse, the start is
  after the clock and before the end; \<open>bookCar\<close> answers 500 and writes nothing.\<close>

theorem bookCar_time_without_colon:
  "truthy (body_carId request_hour) \<and> truthy (body_showroomId request_hour)
   \<and> truthy (body_rentalStartDate request_hour) \<and> truthy (body_rentalStartTime request_hour)
   \<and> truthy (body_rentalEndDate request_hour) \<and> truthy (body_rentalEndTime request_hour)
   \<and> Car_findById (str (body_carId request_hour)) (cars store1) = Some car2
   \<and> availability car2 = ''Available''
   \<and> bookings store1 = [booking0, booking1]
   \<and> carId booking1 \<noteq> str (body_carId request_hour)
   \<and> rentalStartDate booking0 < str (body_rentalStartDate request_hour)
   \<and> rentalEndDate booking0 < str (body_rentalStartDate request_hour)
   \<and> parseDate env1 (str (body_rentalStartDate request_hour) @ ''T''
        @ str (body_rentalStartTime request_hour) @ '':00+05:00'') = Some 1906520400000
   \<and> parseDate env1 (str (body_rentalEndDate request_hour) @ ''T''
        @ str (body_rentalEndTime request_hour) @ '':00+05:00'') = Some 1906693200000
   \<and> now env1 \<le> 1906520400000
   \<and> (1906520400000::int) \<le> 1906693200000
   \<and> CHR '':'' \<notin> set (str (body_rentalStartTime request_hour))
   \<and> bookCar env1 store1 request_hour =
       (store1, 500, Message ''Server error. Please try again later.'')"
proof -
  have "truthy (body_carId request_hour)" "truthy (body_showroomId request_hour)"
    "truthy (body_rentalStartDate request_hour)" "truthy (body_rentalStartTime request_hour)"
    "truthy (body_rentalEndDate request_hour)" "truthy (body_rentalEndTime request_hour)"
    "Car_findById (str (body_carId request_hour)) (cars store1) = Some car2"
    "availability car2 = ''Available''"
    "bookings store1 = [booking0, booking1]"
    "carId booking1 \<noteq> str (body_carId request_hour)"
    by (simp_all add: request_hour_def request1_def request0_def truthy_def str_def store1_def
        Car_findById_def car1_def car2_def booking1_def)
  moreover have "rentalStartDate booking0 < str (body_rentalStartDate request_hour)"
    "rentalEndDate booking0 < str (body_rentalStartDate request_hour)"
    by (simp_all add: request_hour_def request1_def request0_def str_def booking0_def)
  moreover have "parseDate env1 (str (body_rentalStartDate request_hour) @ ''T''
        @ str (body_rentalStartTime request_hour) @ '':00+05:00'') = Some 1906520400000"
    "parseDate env1 (str (body_rentalEndDate request_hour) @ ''T''
        @ str (body_rentalEndTime request_hour) @ '':00+05:00'') = Some 1906693200000"
    "now env1 \<le> 1906520400000"
    "CHR '':'' \<notin> set (str (body_rentalStartTime request_hour))"
    by (simp_all add: request_hour_def request1_def request0_def str_def env1_def parse1_def)
  ultimately show ?thesis
    using bookCar_example_hour by simp
qed

text \<open>
  C6. When no stored booking has both the requested id and the requesting user,
  \<open>cancelBooking\<close> answers 404 and leaves the store as it was: no car is saved and no
  booking is deleted.
\<close>

theorem cancelBooking_not_owner:
  assumes "\<forall>b \<in> set (bookings S). booking_id b = params_bookingId req \<longrightarrow> userId b \<noteq> req_user req"
  shows "cancelBooking S req = (S, 404, Message ''Booking not found or unauthorized access.'')"
proof -
  have "findOne (cancelBooking_filter (params_bookingId req) (req_user req)) (bookings S) = None"
    using assms
    by (auto simp add: findOne_def find_None_iff matches_def cancelBooking_filter_def
        holds_field_def booking_doc_def)
  then show ?thesis by (simp add: cancelBooking_def)
qed

theorem cancelBooking_not_owner_witness:
  "Booking_findById (params_bookingId request0) (bookings store1) = Some booking1
   \<and> userId booking1 \<noteq> req_user request0
   \<and> cancelBooking store1 request0
       = (store1, 404, Message ''Booking not found or unauthorized access.'')"
proof -
  have h: "\<forall>b \<in> set (bookings store1).
      booking_id b = params_bookingId request0 \<longrightarrow> userId b \<noteq> req_user request0"
    by (simp add: store1_def booking0_def booking1_def request0_def)
  have "Booking_findById (params_bookingId request0) (bookings store1) = Some booking1"
    by (simp add: Booking_findById_def store1_def booking0_def booking1_def request0_def)
  moreover have "userId booking1 \<noteq> req_user request0"
    by (simp add: booking1_def request0_def)
  ultimately show ?thesis
    using cancelBooking_not_owner [OF h] by simp
qed

text \<open>
  C7. The guard against updates after the rental start, on a booking as \<open>bookCar\<close>
  stores it. The start time is stored as \<open>10:00 AM\<close>, and the string built from it after
  \<open>T\<close> is Invalid Date to an engine that reads only the ISO form there. With the clock past
  the start that \<open>bookCar\<close> parsed, \<open>updateBooking\<close> with a new start and end answers 200
  and stores the change, and \<open>extendBooking\<close> answers with the price error: neither gives
  the answer of lines 315 and 414.
\<close>

theorem updateBooking_after_start_12hour:
  "Booking_findById ''b2'' (bookings store2) = Some booking2
   \<and> parseDate env2 (rentalStartDate booking2 @ ''T'' @ rentalStartTime booking2) = None
   \<and> parseDate env2 ''2030-06-01T10:00:00+05:00'' = Some 1906520400000
   \<and> 1906520400000 \<le> now env2
   \<and> updateBooking env2 store2 (request_move\<lparr>params_bookingId := ''b2''\<rparr>) =
       (store2\<lparr>bookings :=
          [booking0, booking1,
           booking2\<lparr>rentalStartDate := ''2030-06-03'', rentalStartTime := ''10:00'',
             rentalEndDate := ''2030-06-05'', rentalEndTime := ''10:00''\<rparr>]\<rparr>,
        200,
        MessageBooking ''Booking updated successfully''
          (booking2\<lparr>rentalStartDate := ''2030-06-03'', rentalStartTime := ''10:00'',
             rentalEndDate := ''2030-06-05'', rentalEndTime := ''10:00''\<rparr>))
   \<and> extendBooking env2 store2 (request_extend\<lparr>params_bookingId := ''b2''\<rparr>) =
       (store2, 400, Message ''Failed to calculate total price.'')"
proof -
  have "1906520400000 \<le> now env2"
    by (simp add: env2_def)
  then show ?thesis
    using booking2_start_unparsed updateBooking_example_12hour extendBooking_example_12hour
    by simp
qed

text \<open>
  C8. When the car of the request exists and is not \<open>Available\<close>, \<open>bookCar\<close> answers 400
  and leaves the store as it was; with all six fields present the message is that the car
  is not available.
\<close>

theorem bookCar_unavailable:
  assumes "Car_findById (str (body_carId req)) (cars S) = Some c"
    and "availability c \<noteq> ''Available''"
  shows "fst (bookCar E S req) = S
       \<and> fst (snd (bookCar E S req)) = 400
       \<and> (truthy (body_carId req) \<and> truthy (body_showroomId req)
          \<and> truthy (body_rentalStartDate req) \<and> truthy (body_rentalStartTime req)
          \<and> truthy (body_rentalEndDate req) \<and> truthy (body_rentalEndTime req)
          \<longrightarrow> snd (snd (bookCar E S req)) = Message ''Car is not available for booking.'')"
  using assms by (simp add: bookCar_def)

theorem bookCar_unavailable_witness:
  "Car_findById (str (body_carId request_c1)) (cars store1) = Some car1
   \<and> availability car1 \<noteq> ''Available''
   \<and> fst (bookCar env1 store1 request_c1) = store1
   \<and> fst (snd (bookCar env1 store1 request_c1)) = 400
   \<and> snd (snd (bookCar env1 store1 request_c1)) = Message ''Car is not available for booking.''"
proof -
  have c: "Car_findById (str (body_carId request_c1)) (cars store1) = Some car1"
    by (simp add: request_c1_def request1_def request0_def str_def store1_def Car_findById_def
        car1_def)
  have a: "availability car1 \<noteq> ''Available''"
    by (simp add: car1_def)
  from bookCar_unavailable [OF c a, of env1] c a show ?thesis
    by (simp add: bookCar_example_unavailable)
qed

theorem bookCar_unavailable_not_409:
  "Car_findById (str (body_carId request_c1)) (cars store1) = Some car1
   \<and> availability car1 \<noteq> ''Available''
   \<and> bookCar env1 store1 request_c1
       = (store1, 400, Message ''Car is not available for booking.'')
   \<and> fst (snd (bookCar env1 store1 request_c1)) \<noteq> 409"
proof -
  have "Car_findById (str (body_carId request_c1)) (cars store1) = Some car1"
    by (simp add: request_c1_def request1_def request0_def str_def store1_def Car_findById_def
        car1_def)
  moreover have "availability car1 \<noteq> ''Available''"
    by (simp add: car1_def)
  moreover have "fst (snd (bookCar env1 store1 request_c1)) \<noteq> 409"
    unfolding bookCar_example_unavailable by simp
  ultimately show ?thesis
    using bookCar_example_unavailable by simp
qed

text \<open>
  C9. When the booking and its car are found, \<open>Return_car\<close> adds one event to the
  notifier, on the channel \<open>notification\<close> followed by the user id of the car, with the
  fixed message, answers 200, and leaves the bookings, the cars and the invoices as they
  were.
\<close>

theorem Return_car_only_emits:
  assumes "Booking_findById (params_BookingId req) (bookings S) = Some b"
      and "Car_findById (carId b) (cars S) = Some c"
  shows "Return_car S req =
           (S\<lparr>emitted := emitted S @
                [(''notification'' @ car_userId c, ''Car return request recieved'')]\<rparr>,
            200, Message ''Return request sent to showroom  owner for approved'')
       \<and> bookings (fst (Return_car S req)) = bookings S
       \<and> cars (fst (Return_car S req)) = cars S
       \<and> invoices (fst (Return_car S req)) = invoices S"
  using assms Car_findById_id [OF assms(2)]
  by (simp add: Return_car_def populate_def io_emit_def)

theorem Return_car_only_emits_witness:
  "Booking_findById (params_BookingId request0) (bookings store1) = Some booking1
   \<and> Car_findById (carId booking1) (cars store1) = Some car1
   \<and> Return_car store1 request0 =
       (store1\<lparr>emitted := [(''notificationo1'', ''Car return request recieved'')]\<rparr>,
        200, Message ''Return request sent to showroom  owner for approved'')"
proof -
  have b: "Booking_findById (params_BookingId request0) (bookings store1) = Some booking1"
    by (simp add: Booking_findById_def store1_def booking0_def booking1_def request0_def)
  have c: "Car_findById (carId booking1) (cars store1) = Some car1"
    by (simp add: Car_findById_def store1_def booking1_def car1_def)
  from Return_car_only_emits [OF b c] b c show ?thesis
    by (simp add: store1_def car1_def)
qed

text \<open>
  C10. An update of the end date alone, on a booking as \<open>bookCar\<close> stores it and before its
  start: the stored start is Invalid Date to the example engine, the checks of lines 341
  and 348 compare with \<open>NaN\<close> and pass, the price is \<open>NaN\<close>, and \<open>updateBooking\<close> answers
  500 from its \<open>catch\<close>, the store unchanged.
\<close>

theorem updateBooking_end_only_12hour:
  "Booking_findById ''b2'' (bookings store2) = Some booking2
   \<and> \<not> truthy (body_rentalStartDate request_end) \<and> \<not> truthy (body_rentalStartTime request_end)
   \<and> parseDate env1 (rentalStartDate booking2 @ ''T'' @ rentalStartTime booking2) = None
   \<and> parseDate env1 ''2030-06-01T10:00:00+05:00'' = Some 1906520400000
   \<and> now env1 < 1906520400000
   \<and> updateBooking env1 store2 (request_end\<lparr>params_bookingId := ''b2''\<rparr>) =
       (store2, 500, MessageError ''Error updating booking'' ValidationError)"
proof -
  have "now env1 < 1906520400000"
    by (simp add: env1_def)
  moreover have "\<not> truthy (body_rentalStartDate request_end)"
      "\<not> truthy (body_rentalStartTime request_end)"
    by (simp_all add: request_end_def request0_def truthy_def)
  ultimately show ?thesis
    using booking2_start_unparsed updateBooking_example_end_only by simp
qed

end
